theory Spec2Isabelle
  imports Main "HOL-Library.Multiset"
begin

section \<open>WhatsApp chat analysis: the record pipeline of \<open>main\<close>\<close>

text \<open>
  The development embeds the part of \<open>src/main.py\<close> that turns the lines of a chat
  export into the table \<open>df\<close> of message records with response times (lines 46 to 69
  of \<open>main\<close>): the regular expression search per line, the removal of empty
  messages, \<open>pd.to_datetime\<close> with the format \<open>%d.%m.%y, %H:%M:%S\<close>, the forward
  fill, the selection of sender changes, \<open>diff\<close>, the time limit and the outer merge;
  and the summary table built from it (lines 72 to 89).

  A data frame is a list of rows in index order, a missing value (\<open>None\<close>, \<open>NaN\<close>,
  \<open>NaT\<close>) is \<open>None\<close>, a timestamp is a number of seconds since 1970-01-01 00:00:00 and
  a time difference a number of seconds. A Python string is a list of characters;
  \<open>char\<close> has 256 values, so the model covers text whose code points are below 256,
  where the decimal digits of \<open>\d\<close> are \<open>0\<close> to \<open>9\<close>. The table after the merge
  is a multiset of rows, since the row order of the merge depends on the version of
  the library.
\<close>

subsection \<open>Exceptions\<close>

datatype py_error = KeyError | ValueError | AttributeError

subsection \<open>The regular expression of line 49\<close>

text \<open>
  \<^verbatim>\<open>(\[(?P<datetime>\d{2}.\d{2}.\d{2}, \d{2}:\d{2}:\d{2})] (?P<messenger>[^:]*): )?((?P<message>.*))\<close>
\<close>

record groupdict =
  gd_datetime :: "string option"
  gd_messenger :: "string option"
  gd_message :: string

definition newline :: char where
  "newline = CHR 0x0A"

datatype atom = Lit char | Digit | Dot | OneOf string

fun match_atom :: "atom \<Rightarrow> char \<Rightarrow> bool" where
  "match_atom (Lit a) c = (c = a)"
| "match_atom Digit c = (c \<in> set ''0123456789'')"
| "match_atom Dot c = (c \<noteq> newline)"
| "match_atom (OneOf cs) c = (c \<in> set cs)"

text \<open>A sequence of single-character atoms against the start of a string: the text
  matched and the rest.\<close>

fun match_atoms :: "atom list \<Rightarrow> string \<Rightarrow> (string \<times> string) option" where
  "match_atoms [] s = Some ([], s)"
| "match_atoms (a # as) [] = None"
| "match_atoms (a # as) (c # s) =
     (if match_atom a c
      then (case match_atoms as s of None \<Rightarrow> None | Some (m, r) \<Rightarrow> Some (c # m, r))
      else None)"

definition datetime_atoms :: "atom list" where
  "datetime_atoms =
     [Digit, Digit, Dot, Digit, Digit, Dot, Digit, Digit, Lit CHR '','', Lit CHR '' '',
      Digit, Digit, Lit CHR '':'', Digit, Digit, Lit CHR '':'', Digit, Digit]"

text \<open>
  The optional group. \<open>[^:]*\<close> is greedy and cannot run over a colon, so the only
  way for \<open>: \<close> to follow it is at the first colon: the name is the text before that
  colon (it may be empty and, unlike \<open>.\<close>, may hold a newline).
\<close>

definition match_prefix :: "string \<Rightarrow> (string \<times> string \<times> string) option" where
  "match_prefix s =
     (case match_atoms [Lit CHR ''[''] s of None \<Rightarrow> None | Some (_, s1) \<Rightarrow>
      case match_atoms datetime_atoms s1 of None \<Rightarrow> None | Some (dt, s2) \<Rightarrow>
      case match_atoms [Lit CHR '']'', Lit CHR '' ''] s2 of None \<Rightarrow> None | Some (_, s3) \<Rightarrow>
      case match_atoms [Lit CHR '':'', Lit CHR '' '']
             (dropWhile (\<lambda>c. c \<noteq> CHR '':'') s3) of None \<Rightarrow> None
      | Some (_, s4) \<Rightarrow> Some (dt, takeWhile (\<lambda>c. c \<noteq> CHR '':'') s3, s4))"

text \<open>\<open>.*\<close>: the longest run of characters other than a newline; it never fails.\<close>

definition dot_star :: "string \<Rightarrow> string" where
  "dot_star s = takeWhile (\<lambda>c. c \<noteq> newline) s"

text \<open>The whole pattern at one start position: the optional group is tried first, and
  skipped when it does not match.\<close>

definition re_match :: "string \<Rightarrow> groupdict option" where
  "re_match s =
     (case match_prefix s of
        Some (dt, name, rest) \<Rightarrow>
          Some \<lparr>gd_datetime = Some dt, gd_messenger = Some name, gd_message = dot_star rest\<rparr>
      | None \<Rightarrow>
          Some \<lparr>gd_datetime = None, gd_messenger = None, gd_message = dot_star s\<rparr>)"

text \<open>\<open>re.search\<close> scans the start positions from left to right and returns
  \<open>None\<close> when no position matches.\<close>

fun re_search :: "string \<Rightarrow> groupdict option" where
  "re_search [] = re_match []"
| "re_search (c # cs) =
     (case re_match (c # cs) of Some g \<Rightarrow> Some g | None \<Rightarrow> re_search cs)"

text \<open>Line 50: \<open>re.search(pattern, line).groupdict()\<close> for each line; \<open>.groupdict()\<close>
  on \<open>None\<close> raises \<open>AttributeError\<close>.\<close>

fun groupdicts :: "string list \<Rightarrow> py_error + groupdict list" where
  "groupdicts [] = Inr []"
| "groupdicts (line # lines) =
     (case re_search line of
        None \<Rightarrow> Inl AttributeError
      | Some g \<Rightarrow> (case groupdicts lines of Inl e \<Rightarrow> Inl e | Inr gs \<Rightarrow> Inr (g # gs)))"

subsection \<open>\<open>pd.to_datetime\<close> with the format \<open>%d.%m.%y, %H:%M:%S\<close>\<close>

text \<open>
  The format is compiled to a regular expression, each directive an ordered
  alternation and each run of white space \<open>\s+\<close>:
  \<^verbatim>\<open>%d  3[0-1]|[1-2]\d|0[1-9]|[1-9]| [1-9]     %H  2[0-3]|[0-1]\d|\d\<close>
  \<^verbatim>\<open>%m  1[0-2]|0[1-9]|[1-9]                   %M  [0-5]\d|\d\<close>
  \<^verbatim>\<open>%y  \d\d                                   %S  6[0-1]|[0-5]\d|\d\<close>
  The expression is matched at the start of the text, a later alternative being tried
  when the rest fails after an earlier one, and text left over is an error.
\<close>

datatype item = Alt "atom list list" | Plus atom

fun first_some :: "'a option list \<Rightarrow> 'a option" where
  "first_some [] = None"
| "first_some (None # xs) = first_some xs"
| "first_some (Some x # xs) = Some x"

fun match_items :: "item list \<Rightarrow> string \<Rightarrow> (string list \<times> string) option" where
  "match_items [] s = Some ([], s)"
| "match_items (Alt alts # rest) s =
     first_some (map (\<lambda>alt.
       case match_atoms alt s of None \<Rightarrow> None
       | Some (m, r) \<Rightarrow>
           (case match_items rest r of None \<Rightarrow> None | Some (ms, r') \<Rightarrow> Some (m # ms, r'))) alts)"
| "match_items (Plus a # rest) s =
     first_some (map (\<lambda>n.
       case match_items rest (drop n s) of None \<Rightarrow> None
       | Some (ms, r') \<Rightarrow> Some (take n s # ms, r'))
       (rev [1 ..< Suc (length (takeWhile (match_atom a) s))]))"

definition nonzero :: atom where
  "nonzero = OneOf ''123456789''"

definition whitespace :: atom where
  "whitespace = OneOf [CHR 0x09, CHR 0x0A, CHR 0x0B, CHR 0x0C, CHR 0x0D, CHR 0x1C, CHR 0x1D,
     CHR 0x1E, CHR 0x1F, CHR 0x20, CHR 0x85, CHR 0xA0]"

definition format_regex :: "item list" where
  "format_regex =
     [Alt [ [Lit CHR ''3'', OneOf ''01''], [OneOf ''12'', Digit], [Lit CHR ''0'', nonzero],
           [nonzero], [Lit CHR '' '', nonzero]],
      Alt [ [Lit CHR ''.'']],
      Alt [ [Lit CHR ''1'', OneOf ''012''], [Lit CHR ''0'', nonzero], [nonzero]],
      Alt [ [Lit CHR ''.'']],
      Alt [ [Digit, Digit]],
      Alt [ [Lit CHR '','']],
      Plus whitespace,
      Alt [ [Lit CHR ''2'', OneOf ''0123''], [OneOf ''01'', Digit], [Digit]],
      Alt [ [Lit CHR '':'']],
      Alt [ [OneOf ''012345'', Digit], [Digit]],
      Alt [ [Lit CHR '':'']],
      Alt [ [Lit CHR ''6'', OneOf ''01''], [OneOf ''012345'', Digit], [Digit]]]"

text \<open>\<open>int\<close> of a matched group: its decimal digits (the blank of \<open> 7\<close> is skipped).\<close>

definition int_of_group :: "string \<Rightarrow> int" where
  "int_of_group s =
     foldl (\<lambda>n c. 10 * n + (int (of_char c) - 48)) 0 (filter (match_atom Digit) s)"

definition is_leap :: "int \<Rightarrow> bool" where
  "is_leap y = (y mod 4 = 0 \<and> (y mod 100 \<noteq> 0 \<or> y mod 400 = 0))"

definition days_in_month :: "int \<Rightarrow> int \<Rightarrow> int" where
  "days_in_month y m =
     (if m = 2 then (if is_leap y then 29 else 28)
      else if m = 4 \<or> m = 6 \<or> m = 9 \<or> m = 11 then 30 else 31)"

definition days_before_year :: "int \<Rightarrow> int" where
  "days_before_year y = (y - 1) * 365 + (y - 1) div 4 - (y - 1) div 100 + (y - 1) div 400"

definition days_before_month :: "int \<Rightarrow> int \<Rightarrow> int" where
  "days_before_month y m = sum_list (map (\<lambda>k. days_in_month y (int k)) [1 ..< nat m])"

text \<open>\<open>date(y, m, d).toordinal()\<close>; the ordinal of 1970-01-01 is 719163.\<close>

definition toordinal :: "int \<Rightarrow> int \<Rightarrow> int \<Rightarrow> int" where
  "toordinal y m d = days_before_year y + days_before_month y m + d"

text \<open>
  One value: the fields are read from the groups, a two-digit year up to 68 is in the
  2000s and one from 69 in the 1900s, \<open>date(year, month, day)\<close> raises \<open>ValueError\<close>
  for a day the month does not have, and the seconds since the epoch are computed from
  the fields (the directive \<open>%S\<close> admits 60 and 61, which run into the next minute).
\<close>

definition strptime :: "string \<Rightarrow> py_error + int" where
  "strptime s =
     (case match_items format_regex s of
        Some ([d, _, m, _, y, _, _, H, _, M, _, S], rest) \<Rightarrow>
          if rest \<noteq> [] then Inl ValueError
          else
            let year = (if int_of_group y \<le> 68 then int_of_group y + 2000
                        else int_of_group y + 1900);
                month = int_of_group m;
                day = int_of_group d
            in if day > days_in_month year month then Inl ValueError
               else Inr ((toordinal year month day - 719163) * 86400
                         + int_of_group H * 3600 + int_of_group M * 60 + int_of_group S)
      | _ \<Rightarrow> Inl ValueError)"

text \<open>Line 57 on a column: a missing value becomes \<open>NaT\<close>, the first value that does
  not parse raises.\<close>

fun to_datetime :: "string option list \<Rightarrow> py_error + int option list" where
  "to_datetime [] = Inr []"
| "to_datetime (None # xs) =
     (case to_datetime xs of Inl e \<Rightarrow> Inl e | Inr ts \<Rightarrow> Inr (None # ts))"
| "to_datetime (Some s # xs) =
     (case strptime s of
        Inl e \<Rightarrow> Inl e
      | Inr t \<Rightarrow> (case to_datetime xs of Inl e \<Rightarrow> Inl e | Inr ts \<Rightarrow> Inr (Some t # ts)))"

definition dt_date :: "int \<Rightarrow> int" where
  "dt_date t = t div 86400"

definition dt_time :: "int \<Rightarrow> int" where
  "dt_time t = t mod 86400"

subsection \<open>The table \<open>df\<close>\<close>

record row =
  datetime :: "int option"
  messenger :: "string option"
  message :: string
  date :: "int option"
  time :: "int option"

record message_record = row +
  response_time :: "int option"

text \<open>
  Lines 50 to 59. \<open>pd.DataFrame([])\<close> has no columns, so \<open>df["message"]\<close>
  raises \<open>KeyError\<close> for a file without lines. Empty messages are removed before the
  timestamps are parsed.
\<close>

definition make_row :: "groupdict \<Rightarrow> int option \<Rightarrow> row" where
  "make_row g t =
     \<lparr>datetime = t, messenger = gd_messenger g, message = gd_message g,
      date = map_option dt_date t, time = map_option dt_time t\<rparr>"

definition read_table :: "string list \<Rightarrow> py_error + row list" where
  "read_table lines =
     (case groupdicts lines of
        Inl e \<Rightarrow> Inl e
      | Inr data \<Rightarrow>
          if data = [] then Inl KeyError
          else
            let df = filter (\<lambda>g. gd_message g \<noteq> []) data
            in (case to_datetime (map gd_datetime df) of
                  Inl e \<Rightarrow> Inl e
                | Inr ts \<Rightarrow> Inr (map2 make_row df ts)))"

text \<open>
  Line 62, \<open>df.fillna(method="ffill")\<close>: in every column a missing value takes the
  last valid value before it, and stays missing when there is none. The first argument
  is the row before, already filled.
\<close>

definition fill :: "'a option \<Rightarrow> 'a option \<Rightarrow> 'a option" where
  "fill carried x = (case x of None \<Rightarrow> carried | Some v \<Rightarrow> Some v)"

definition fill_row :: "row \<Rightarrow> row \<Rightarrow> row" where
  "fill_row carried r =
     \<lparr>datetime = fill (datetime carried) (datetime r),
      messenger = fill (messenger carried) (messenger r),
      message = message r,
      date = fill (date carried) (date r),
      time = fill (time carried) (time r)\<rparr>"

fun ffill_from :: "row \<Rightarrow> row list \<Rightarrow> row list" where
  "ffill_from carried [] = []"
| "ffill_from carried (r # rs) = fill_row carried r # ffill_from (fill_row carried r) rs"

definition no_row :: row where
  "no_row = \<lparr>datetime = None, messenger = None, message = [], date = None, time = None\<rparr>"

definition fillna_ffill :: "row list \<Rightarrow> row list" where
  "fillna_ffill df = ffill_from no_row df"

text \<open>The record reconstruction, lines 46 to 62.\<close>

definition reconstruct :: "string list \<Rightarrow> py_error + row list" where
  "reconstruct lines =
     (case read_table lines of Inl e \<Rightarrow> Inl e | Inr df \<Rightarrow> Inr (fillna_ffill df))"

subsection \<open>Response times, lines 64 to 69\<close>

definition response_timelimit :: int where
  "response_timelimit = 6"

text \<open>\<open>shift(1)\<close> moves a column one row down and puts a missing value first.\<close>

definition shift1 :: "'a option list \<Rightarrow> 'a option list" where
  "shift1 xs = (if xs = [] then [] else None # butlast xs)"

text \<open>\<open>!=\<close> on two object columns: a pair with a missing value on either side is
  unequal.\<close>

definition ne_obj :: "string option \<Rightarrow> string option \<Rightarrow> bool" where
  "ne_obj x y = (case (x, y) of (Some a, Some b) \<Rightarrow> a \<noteq> b | _ \<Rightarrow> True)"

definition sender_change :: "row list \<Rightarrow> bool list" where
  "sender_change df = map2 ne_obj (map messenger df) (shift1 (map messenger df))"

text \<open>\<open>df[mask]\<close>: the rows whose mask is true.\<close>

definition boolean_index :: "bool list \<Rightarrow> 'a list \<Rightarrow> 'a list" where
  "boolean_index bs df = map snd (filter fst (zip bs df))"

text \<open>\<open>diff()\<close>: each value minus the one before, missing in the first row and when
  either value is missing.\<close>

fun diff_from :: "int option \<Rightarrow> int option list \<Rightarrow> int option list" where
  "diff_from carried [] = []"
| "diff_from carried (x # xs) =
     (case (carried, x) of (Some a, Some b) \<Rightarrow> Some (b - a) | _ \<Rightarrow> None) # diff_from x xs"

definition diff :: "int option list \<Rightarrow> int option list" where
  "diff xs = diff_from None xs"

definition with_response_time :: "row \<Rightarrow> int option \<Rightarrow> message_record" where
  "with_response_time r d =
     \<lparr>datetime = datetime r, messenger = messenger r, message = message r,
      date = date r, time = time r, response_time = d\<rparr>"

text \<open>\<open><= pd.Timedelta(response_timelimit, unit="h")\<close> is false for \<open>NaT\<close>.\<close>

definition within_limit :: "message_record \<Rightarrow> bool" where
  "within_limit r =
     (case response_time r of None \<Rightarrow> False | Some d \<Rightarrow> d \<le> response_timelimit * 3600)"

definition df_response_times :: "row list \<Rightarrow> message_record list" where
  "df_response_times df =
     (let changes = boolean_index (sender_change df) df
      in filter within_limit (map2 with_response_time changes (diff (map datetime changes))))"

text \<open>
  Line 69, \<open>pd.merge(df, df_response_times, how="outer")\<close>. No key is named, so the
  join is on all common columns: \<open>datetime\<close>, \<open>messenger\<close>, \<open>message\<close>, \<open>date\<close> and
  \<open>time\<close>, missing values being equal to each other. The result holds every left row
  once for every right row with its key, with the response time of that right row; a
  left row whose key no right row has is kept once, without response time, and a right
  row whose key no left row has is kept as it is.

  The order in which the library returns these rows depends on its version (the keys
  in the order of their first appearance, or sorted, or the order of the left table
  when the right table is empty). The result is therefore the multiset of its rows;
  \<open>merge_rows\<close> lists them once, left row by left row.
\<close>

definition key :: "'a row_scheme \<Rightarrow> int option \<times> string option \<times> string \<times> int option \<times> int option" where
  "key r = (datetime r, messenger r, message r, date r, time r)"

definition merge_rows :: "row list \<Rightarrow> message_record list \<Rightarrow> message_record list" where
  "merge_rows left right =
     concat (map (\<lambda>l. let rs = filter (\<lambda>r. key r = key l) right
                       in if rs = [] then [with_response_time l None]
                          else map (\<lambda>r. with_response_time l (response_time r)) rs) left)
     @ filter (\<lambda>r. key r \<notin> set (map key left)) right"

definition merge_outer :: "row list \<Rightarrow> message_record list \<Rightarrow> message_record multiset" where
  "merge_outer left right = mset (merge_rows left right)"

text \<open>The table \<open>df\<close> after line 69.\<close>

definition main_records :: "string list \<Rightarrow> py_error + message_record multiset" where
  "main_records lines =
     (case reconstruct lines of
        Inl e \<Rightarrow> Inl e
      | Inr df \<Rightarrow> Inr (merge_outer df (df_response_times df)))"

subsection \<open>The summary table, lines 72 to 89\<close>

text \<open>\<open>==\<close> of an object column with a value: a missing value on either side is
  unequal. \<open>df[df["messenger"] == messenger]\<close> keeps the rows of that sender.\<close>

definition eq_obj :: "string option \<Rightarrow> string option \<Rightarrow> bool" where
  "eq_obj x y = (case (x, y) of (Some a, Some b) \<Rightarrow> a = b | _ \<Rightarrow> False)"

definition rows_of :: "message_record multiset \<Rightarrow> string option \<Rightarrow> message_record multiset" where
  "rows_of df m = filter_mset (\<lambda>r. eq_obj (messenger r) m) df"

text \<open>
  The three values of a sender. They are floating-point results of the library, which
  is taken as three parameters: \<open>mean_td\<close> for \<open>mean()\<close> of the column
  \<open>response_time\<close> of the sender's rows, \<open>mean_len\<close> for \<open>round(np.mean(...))\<close> of
  the lengths of the sender's messages, and \<open>ratio\<close> for the quotient of the number
  of the sender's rows by \<open>len(set(df["date"]))\<close>.
\<close>

definition averages ::
  "(int option multiset \<Rightarrow> 'a) \<Rightarrow> (nat multiset \<Rightarrow> 'b) \<Rightarrow> (nat \<Rightarrow> nat \<Rightarrow> 'c) \<Rightarrow>
   message_record multiset \<Rightarrow> string option \<Rightarrow> 'a \<times> 'b \<times> 'c" where
  "averages mean_td mean_len ratio df m =
     (mean_td (image_mset response_time (rows_of df m)),
      mean_len (image_mset (\<lambda>r. length (message r)) (rows_of df m)),
      ratio (size (rows_of df m)) (card (date ` set_mset df)))"

text \<open>
  The three dictionaries are filled in the order in which the interpreter iterates over
  \<open>messengers = set(df["messenger"])\<close>, and the columns of \<open>df_averages\<close>, written
  to \<open>out/results.csv\<close>, keep that order. \<open>np.mean\<close> of an empty list is \<open>nan\<close>, on
  which \<open>round\<close> raises \<open>ValueError\<close>: this happens for a sender without rows, which
  the missing sender of leading continuation lines is.
\<close>

definition df_averages ::
  "(int option multiset \<Rightarrow> 'a) \<Rightarrow> (nat multiset \<Rightarrow> 'b) \<Rightarrow> (nat \<Rightarrow> nat \<Rightarrow> 'c) \<Rightarrow>
   string option list \<Rightarrow> message_record multiset \<Rightarrow>
   py_error + (string option \<times> 'a \<times> 'b \<times> 'c) list" where
  "df_averages mean_td mean_len ratio messengers df =
     (if \<exists>m\<in>set messengers. rows_of df m = {#} then Inl ValueError
      else Inr (map (\<lambda>m. (m, averages mean_td mean_len ratio df m)) messengers))"

text \<open>
  The program does not fix the iteration order of the set (for a set of strings it
  depends on the hash seed of the process), so the order is a parameter of a run: a
  list without repetition of the senders of the table.
\<close>

definition iteration_order :: "string option list \<Rightarrow> message_record multiset \<Rightarrow> bool" where
  "iteration_order ms df = (distinct ms \<and> set ms = messenger ` set_mset df)"

text \<open>What a run returns: the table \<open>df\<close> and the summary table, or the exception.\<close>

definition main_outputs ::
  "(int option multiset \<Rightarrow> 'a) \<Rightarrow> (nat multiset \<Rightarrow> 'b) \<Rightarrow> (nat \<Rightarrow> nat \<Rightarrow> 'c) \<Rightarrow>
   (message_record multiset \<Rightarrow> string option list) \<Rightarrow> string list \<Rightarrow>
   py_error + message_record multiset \<times> (string option \<times> 'a \<times> 'b \<times> 'c) list" where
  "main_outputs mean_td mean_len ratio set_order lines =
     (case main_records lines of
        Inl e \<Rightarrow> Inl e
      | Inr df \<Rightarrow>
          (case df_averages mean_td mean_len ratio (set_order df) df of
             Inl e \<Rightarrow> Inl e
           | Inr table \<Rightarrow> Inr (df, table)))"

subsection \<open>Vocabulary of the properties\<close>

text \<open>A line whose extracted body is empty, and a line that starts with the
  timestamp and sender prefix.\<close>

definition empty_body :: "string \<Rightarrow> bool" where
  "empty_body line = (case re_search line of None \<Rightarrow> False | Some g \<Rightarrow> gd_message g = [])"

definition has_prefix :: "string \<Rightarrow> bool" where
  "has_prefix line = (case re_search line of None \<Rightarrow> False | Some g \<Rightarrow> gd_messenger g \<noteq> None)"

text \<open>The body of a line, and the row it gives in the table before the fill when the
  timestamps of the file parse.\<close>

definition line_body :: "string \<Rightarrow> string" where
  "line_body line = (case re_search line of None \<Rightarrow> [] | Some g \<Rightarrow> gd_message g)"

definition line_row :: "string \<Rightarrow> row" where
  "line_row line =
     (case re_search line of
        None \<Rightarrow> no_row
      | Some g \<Rightarrow>
          make_row g (case gd_datetime g of
                        None \<Rightarrow> None
                      | Some s \<Rightarrow> (case strptime s of Inl e \<Rightarrow> None | Inr t \<Rightarrow> Some t)))"

text \<open>What holds of every row of the table before the fill: the message is not empty,
  and the four other columns are all present (a line with the prefix) or all missing
  (a continuation line).\<close>

definition row_ok :: "row \<Rightarrow> bool" where
  "row_ok r = (message r \<noteq> [] \<and> (datetime r = None) = (messenger r = None)
     \<and> (date r = None) = (messenger r = None) \<and> (time r = None) = (messenger r = None))"

text \<open>The row \<open>r\<close> with the sender and the time of \<open>p\<close>.\<close>

definition carry :: "row \<Rightarrow> row \<Rightarrow> row" where
  "carry p r = \<lparr>datetime = datetime p, messenger = messenger p, message = message r,
                date = date p, time = time p\<rparr>"

text \<open>The timestamps of a table in row order, and the tables in which they never
  decrease.\<close>

definition timestamps :: "'a row_scheme list \<Rightarrow> int list" where
  "timestamps df = concat (map (\<lambda>r. case datetime r of None \<Rightarrow> [] | Some t \<Rightarrow> [t]) df)"

definition timestamps_nondecreasing :: "'a row_scheme list \<Rightarrow> bool" where
  "timestamps_nondecreasing df = sorted (timestamps df)"

section \<open>Properties\<close>

subsection \<open>The line classifier\<close>

lemma re_match_total: "\<exists>g. re_match s = Some g"
  by (simp add: re_match_def split: option.split prod.split)

lemma re_search_eq: "re_search s = re_match s"
  using re_match_total [of s] by (cases s) auto

lemma re_match_both: "re_match s = Some g \<Longrightarrow> (gd_datetime g = None) = (gd_messenger g = None)"
  by (auto simp: re_match_def split: option.splits prod.splits)

lemma groupdicts_total: "\<exists>gs. groupdicts lines = Inr gs \<and> list_all2 (\<lambda>l g. re_search l = Some g) lines gs"
proof (induction lines)
  case Nil
  show ?case by simp
next
  case (Cons l ls)
  obtain g where g: "re_search l = Some g"
    using re_match_total [of l] by (auto simp: re_search_eq)
  from Cons obtain gs where "groupdicts ls = Inr gs" "list_all2 (\<lambda>l g. re_search l = Some g) ls gs"
    by blast
  with g show ?case by simp
qed

lemma to_datetime_all2:
  "to_datetime xs = Inr ts \<Longrightarrow> list_all2 (\<lambda>x t. (x = None) = (t = None)) xs ts"
proof (induction xs arbitrary: ts rule: to_datetime.induct)
  case 1
  then show ?case by simp
next
  case (2 xs)
  then show ?case by (auto split: sum.splits)
next
  case (3 s xs)
  then show ?case by (auto split: sum.splits)
qed

subsection \<open>The table before the fill\<close>

lemma read_table_rows:
  assumes "read_table lines = Inr df" and "r \<in> set df"
  shows "row_ok r"
proof -
  obtain gs where gs: "groupdicts lines = Inr gs"
    and all2: "list_all2 (\<lambda>l g. re_search l = Some g) lines gs"
    using groupdicts_total by blast
  define df0 where "df0 = filter (\<lambda>g. gd_message g \<noteq> []) gs"
  from assms(1) gs obtain ts where ts: "to_datetime (map gd_datetime df0) = Inr ts"
    and df: "df = map2 make_row df0 ts"
    by (auto simp: read_table_def df0_def Let_def split: if_splits sum.splits)
  from to_datetime_all2 [OF ts]
  have nn: "list_all2 (\<lambda>g t. (gd_datetime g = None) = (t = None)) df0 ts"
    by (simp add: list_all2_map1)
  from assms(2) df obtain g t where gt: "(g, t) \<in> set (zip df0 ts)" and r: "r = make_row g t"
    by auto
  from nn gt have 1: "(gd_datetime g = None) = (t = None)"
    by (auto simp: list_all2_iff)
  from gt have "g \<in> set df0" by (rule set_zip_leftD)
  then have g: "g \<in> set gs" and 2: "gd_message g \<noteq> []" by (auto simp: df0_def)
  from all2 g obtain l where "re_search l = Some g"
    by (auto simp: list_all2_conv_all_nth in_set_conv_nth)
  then have 3: "(gd_datetime g = None) = (gd_messenger g = None)"
    using re_match_both by (simp add: re_search_eq)
  from 1 2 3 show ?thesis by (auto simp: r make_row_def row_ok_def)
qed

subsection \<open>The forward fill\<close>

lemma length_ffill_from: "length (ffill_from c rs) = length rs"
  by (induction rs arbitrary: c) auto

lemma message_ffill_from: "map message (ffill_from c rs) = map message rs"
  by (induction rs arbitrary: c) (auto simp: fill_row_def)

lemma ffill_from_append:
  "ffill_from c (xs @ ys) = ffill_from c xs @ ffill_from (last (c # ffill_from c xs)) ys"
  by (induction xs arbitrary: c) auto

lemma fill_row_prefixed:
  "row_ok p \<Longrightarrow> messenger p \<noteq> None \<Longrightarrow> fill_row c p = p"
  by (auto simp: fill_row_def fill_def row_ok_def split: option.splits)

lemma fill_row_continuation:
  "row_ok r \<Longrightarrow> messenger r = None \<Longrightarrow>
   fill_row c r = \<lparr>datetime = datetime c, messenger = messenger c, message = message r, date = date c, time = time c\<rparr>"
  by (auto simp: fill_row_def fill_def row_ok_def split: option.splits)

lemma ffill_from_continuations:
  "\<forall>r\<in>set cs. row_ok r \<and> messenger r = None \<Longrightarrow> ffill_from (carry p q) cs = map (carry p) cs"
proof (induction cs arbitrary: q)
  case Nil
  show ?case by simp
next
  case (Cons c cs)
  then have "fill_row (carry p q) c = carry p c"
    by (simp add: fill_row_continuation carry_def)
  with Cons show ?case by simp
qed

lemma carry_self: "carry p p = p"
  by (simp add: carry_def)

lemma ffill_block:
  assumes p: "row_ok p" "messenger p \<noteq> None"
    and cs: "\<forall>r\<in>set cs. row_ok r \<and> messenger r = None"
  shows "ffill_from c0 (xs @ p # cs @ ys)
         = ffill_from c0 xs @ p # map (carry p) cs @ ffill_from (last (p # map (carry p) cs)) ys"
proof -
  have 1: "ffill_from c (p # cs @ ys) = p # ffill_from p (cs @ ys)" for c
    using p by (simp add: fill_row_prefixed)
  have 2: "ffill_from p (cs @ ys) = ffill_from p cs @ ffill_from (last (p # ffill_from p cs)) ys"
    by (rule ffill_from_append)
  have 3: "ffill_from p cs = map (carry p) cs"
    using ffill_from_continuations [OF cs, of p p] by (simp add: carry_self)
  show ?thesis
    unfolding ffill_from_append [of c0 xs] 1 2 3 by simp
qed


lemma ffill_block_nth:
  assumes p: "row_ok p" "messenger p \<noteq> None"
    and cs: "\<forall>r\<in>set zs. row_ok r \<and> messenger r = None"
    and k: "k \<le> length zs"
  shows "fillna_ffill (xs @ p # zs @ ys) ! (length xs + k) = (p # map (carry p) zs) ! k"
proof -
  define A where "A = ffill_from no_row xs"
  define B where "B = p # map (carry p) zs"
  define C where "C = ffill_from (last (p # map (carry p) zs)) ys"
  have eq: "fillna_ffill (xs @ p # zs @ ys) = A @ B @ C"
    unfolding fillna_ffill_def ffill_block [OF p cs] A_def B_def C_def by simp
  have len: "length A = length xs"
    unfolding A_def by (rule length_ffill_from)
  have kB: "k < length B"
    using k by (simp add: B_def)
  have "(A @ B @ C) ! (length A + k) = (B @ C) ! k"
    by (rule nth_append_length_plus)
  also have "\<dots> = B ! k"
    using kB by (simp add: nth_append)
  finally show ?thesis
    unfolding eq len B_def .
qed

lemma sender_change_nth:
  assumes "0 < n" and "n < length df"
  shows "sender_change df ! n = ne_obj (messenger (df ! n)) (messenger (df ! (n - 1)))"
proof -
  define ms where "ms = map messenger df"
  from assms have len: "n < length ms" "ms \<noteq> []" by (auto simp: ms_def)
  then have "(None # butlast ms) ! n = ms ! (n - 1)"
    using assms(1) by (cases n) (auto simp: nth_butlast)
  with len assms show ?thesis
    by (simp add: sender_change_def shift1_def ms_def [symmetric]) (simp add: ms_def)
qed

subsection \<open>Continuation lines\<close>

text \<open>
  In the table before the fill let \<open>c\<close> be a row without sender, \<open>p\<close> the nearest
  row above it that has one, and \<open>cs\<close> the rows between them, all without sender. The
  fill returns one record per row with the bodies unchanged, the record of \<open>p\<close> is
  \<open>p\<close>, and the record at the place of \<open>c\<close> has the sender and the timestamp of
  \<open>p\<close> and the body of \<open>c\<close>.
\<close>

lemma table_continuation_carries_prefix:
  assumes tab: "read_table lines = Inr df"
    and df: "df = xs @ p # cs @ c # ys"
    and p: "messenger p \<noteq> None"
    and cs: "\<forall>r\<in>set cs. messenger r = None"
    and c: "messenger c = None"
  shows "\<exists>out. reconstruct lines = Inr out \<and> length out = length df
           \<and> map message out = map message df
           \<and> out ! length xs = p
           \<and> messenger (out ! (length xs + length cs + 1)) = messenger p
           \<and> datetime (out ! (length xs + length cs + 1)) = datetime p
           \<and> message (out ! (length xs + length cs + 1)) = message c"
proof -
  have ok: "row_ok r" if "r \<in> set df" for r
    using read_table_rows [OF tab that] .
  have okp: "row_ok p" using ok by (simp add: df)
  have okz: "\<forall>r\<in>set (cs @ [c]). row_ok r \<and> messenger r = None"
    using ok cs c by (auto simp: df)
  have split: "df = xs @ p # (cs @ [c]) @ ys" by (simp add: df)
  have 0: "fillna_ffill df ! (length xs + 0) = (p # map (carry p) (cs @ [c])) ! 0"
    unfolding split by (rule ffill_block_nth [OF okp p okz]) simp
  have 1: "fillna_ffill df ! (length xs + (length cs + 1))
           = (p # map (carry p) (cs @ [c])) ! (length cs + 1)"
    unfolding split by (rule ffill_block_nth [OF okp p okz]) simp
  have 2: "(p # map (carry p) (cs @ [c])) ! (length cs + 1) = carry p c"
    by (simp add: nth_append)
  have "reconstruct lines = Inr (fillna_ffill df)"
    by (simp add: reconstruct_def tab)
  moreover have "length (fillna_ffill df) = length df"
    by (simp add: fillna_ffill_def length_ffill_from)
  moreover have "map message (fillna_ffill df) = map message df"
    by (simp add: fillna_ffill_def message_ffill_from)
  moreover have "fillna_ffill df ! length xs = p"
    using 0 by simp
  moreover have "fillna_ffill df ! (length xs + length cs + 1) = carry p c"
    using 1 2 by (simp add: add.assoc)
  ultimately show ?thesis
    by (simp add: carry_def)
qed

lemma block_columns:
  "k \<le> length zs \<Longrightarrow> messenger ((p # map (carry p) zs) ! k) = messenger p
     \<and> datetime ((p # map (carry p) zs) ! k) = datetime p"
  by (cases k) (auto simp: carry_def)

text \<open>
  Claim C10, as amended. In the table before the fill let \<open>c\<close> be a row of a
  continuation line that has a row of a prefixed line above it, \<open>p\<close> the nearest
  such row and \<open>cs\<close> the continuation rows between them. Then the record of \<open>c\<close>
  has a sender, the same sender and timestamp as the record immediately before it, and
  the comparison of line 65 does not select it as a sender change.
\<close>

theorem continuation_record_not_sender_change:
  assumes tab: "read_table lines = Inr df"
    and df: "df = xs @ p # cs @ c # ys"
    and p: "messenger p \<noteq> None"
    and cs: "\<forall>r\<in>set cs. messenger r = None"
    and c: "messenger c = None"
  shows "\<exists>out. reconstruct lines = Inr out
           \<and> length xs + length cs + 1 < length out
           \<and> messenger (out ! (length xs + length cs + 1)) \<noteq> None
           \<and> messenger (out ! (length xs + length cs + 1)) = messenger (out ! (length xs + length cs))
           \<and> datetime (out ! (length xs + length cs + 1)) = datetime (out ! (length xs + length cs))
           \<and> \<not> sender_change out ! (length xs + length cs + 1)"
proof -
  define out where "out = fillna_ffill df"
  define n where "n = length xs + length cs"
  have ok: "row_ok r" if "r \<in> set df" for r
    using read_table_rows [OF tab that] .
  have okp: "row_ok p" using ok by (simp add: df)
  have okz: "\<forall>r\<in>set (cs @ [c]). row_ok r \<and> messenger r = None"
    using ok cs c by (auto simp: df)
  have split: "df = xs @ p # (cs @ [c]) @ ys" by (simp add: df)
  have at: "out ! (length xs + k) = (p # map (carry p) (cs @ [c])) ! k"
    if "k \<le> length (cs @ [c])" for k
    unfolding out_def split by (rule ffill_block_nth [OF okp p okz that])
  have cols: "messenger (out ! (length xs + k)) = messenger p
      \<and> datetime (out ! (length xs + k)) = datetime p" if "k \<le> length (cs @ [c])" for k
    unfolding at [OF that] by (rule block_columns [OF that])
  have prev: "messenger (out ! n) = messenger p" "datetime (out ! n) = datetime p"
    using cols [of "length cs"] by (simp_all add: n_def)
  have this_row: "messenger (out ! (n + 1)) = messenger p" "datetime (out ! (n + 1)) = datetime p"
    using cols [of "length cs + 1"] by (simp_all add: n_def add.assoc)
  have len: "n + 1 < length out"
    by (simp add: out_def fillna_ffill_def length_ffill_from df n_def)
  have "sender_change out ! (n + 1) = ne_obj (messenger (out ! (n + 1))) (messenger (out ! (n + 1 - 1)))"
    using len by (intro sender_change_nth) simp_all
  then have "\<not> sender_change out ! (n + 1)"
    using p prev this_row by (auto simp: ne_obj_def)
  moreover have "reconstruct lines = Inr out"
    by (simp add: reconstruct_def tab out_def)
  ultimately show ?thesis
    using len p prev this_row unfolding n_def by auto
qed

theorem continuation_record_not_sender_change_witness:
  "read_table [''[01.01.23, 10:00:00] Alice: Hi'' @ [newline],
               ''[01.01.23, 10:05:00] Bob: Hello'' @ [newline], ''again'' @ [newline]]
     = Inr [\<lparr>datetime = Some 1672567200, messenger = Some ''Alice'', message = ''Hi'',
              date = Some 19358, time = Some 36000\<rparr>,
            \<lparr>datetime = Some 1672567500, messenger = Some ''Bob'', message = ''Hello'',
              date = Some 19358, time = Some 36300\<rparr>,
            \<lparr>datetime = None, messenger = None, message = ''again'', date = None, time = None\<rparr>]
   \<and> (\<exists>out. reconstruct [''[01.01.23, 10:00:00] Alice: Hi'' @ [newline],
                 ''[01.01.23, 10:05:00] Bob: Hello'' @ [newline], ''again'' @ [newline]] = Inr out
          \<and> 2 < length out
          \<and> messenger (out ! 2) \<noteq> None
          \<and> messenger (out ! 2) = messenger (out ! 1)
          \<and> \<not> sender_change out ! 2)"
proof -
  let ?lines = "[''[01.01.23, 10:00:00] Alice: Hi'' @ [newline],
                 ''[01.01.23, 10:05:00] Bob: Hello'' @ [newline], ''again'' @ [newline]]"
  let ?a = "\<lparr>datetime = Some 1672567200, messenger = Some ''Alice'', message = ''Hi'',
              date = Some 19358, time = Some 36000\<rparr>"
  let ?p = "\<lparr>datetime = Some 1672567500, messenger = Some ''Bob'', message = ''Hello'',
              date = Some 19358, time = Some 36300\<rparr>"
  let ?c = "\<lparr>datetime = None, messenger = None, message = ''again'', date = None, time = None\<rparr>"
  have tab: "read_table ?lines = Inr [?a, ?p, ?c]"
    by code_simp
  have df: "[?a, ?p, ?c] = [?a] @ ?p # [] @ ?c # []"
    by simp
  have p: "messenger ?p \<noteq> None" by simp
  have cs: "\<forall>r\<in>set ([]::row list). messenger r = None" by simp
  have c: "messenger ?c = None" by simp
  from continuation_record_not_sender_change [OF tab df p cs c]
  obtain out where out: "reconstruct ?lines = Inr out"
    and facts: "length [?a] + length ([]::row list) + 1 < length out"
      "messenger (out ! (length [?a] + length ([]::row list) + 1)) \<noteq> None"
      "messenger (out ! (length [?a] + length ([]::row list) + 1))
         = messenger (out ! (length [?a] + length ([]::row list)))"
      "\<not> sender_change out ! (length [?a] + length ([]::row list) + 1)"
    by blast
  have two: "length [?a] + length ([]::row list) + 1 = 2"
    by simp
  have one: "length [?a] + length ([]::row list) = 1"
    by simp
  from facts have "2 < length out" "messenger (out ! 2) \<noteq> None"
    "messenger (out ! 2) = messenger (out ! 1)" "\<not> sender_change out ! 2"
    unfolding two unfolding one by simp_all
  then show ?thesis
    using tab out by blast
qed

text \<open>
  Claim C10 as stated fails where the first line has the prefix and an empty body: the
  line is removed before the fill, the continuation line after it becomes the first
  record, without sender, and the comparison of line 65 selects it.
\<close>

theorem continuation_record_first_is_sender_change:
  "has_prefix (''[01.01.23, 10:00:00] Alice: '' @ [newline])
   \<and> \<not> has_prefix (''there'' @ [newline])
   \<and> reconstruct [''[01.01.23, 10:00:00] Alice: '' @ [newline], ''there'' @ [newline]]
      = Inr [\<lparr>datetime = None, messenger = None, message = ''there'', date = None, time = None\<rparr>]
   \<and> sender_change [\<lparr>datetime = None, messenger = None, message = ''there'', date = None,
                       time = None\<rparr>] = [True]"
  by code_simp

subsection \<open>Response times are not negative\<close>

lemma timestamps_Cons:
  "timestamps (r # rs) = (case datetime r of None \<Rightarrow> [] | Some t \<Rightarrow> [t]) @ timestamps rs"
  by (simp add: timestamps_def)

lemma boolean_index_Cons:
  "boolean_index (b # bs) (r # rs) = (if b then r # boolean_index bs rs else boolean_index bs rs)"
  by (simp add: boolean_index_def)

lemma boolean_index_Nil [simp]: "boolean_index [] rs = []" "boolean_index bs [] = []"
  by (simp_all add: boolean_index_def)

lemma set_boolean_index: "set (boolean_index bs rs) \<subseteq> set rs"
  by (auto simp: boolean_index_def dest: set_zip_rightD)

lemma set_timestamps: "set (timestamps rs) = {t. \<exists>r\<in>set rs. datetime r = Some t}"
  by (induction rs) (auto simp: timestamps_Cons timestamps_def split: option.splits)

lemma sorted_timestamps_boolean_index:
  "sorted (timestamps rs) \<Longrightarrow> sorted (timestamps (boolean_index bs rs))"
proof (induction rs arbitrary: bs)
  case Nil
  show ?case by (simp add: timestamps_def)
next
  case (Cons r rs)
  show ?case
  proof (cases bs)
    case Nil
    then show ?thesis by (simp add: timestamps_def)
  next
    case (Cons b bs')
    have tail: "sorted (timestamps (boolean_index bs' rs))"
      using Cons.prems Cons.IH by (auto simp: timestamps_Cons sorted_append split: option.splits)
    have sub: "set (timestamps (boolean_index bs' rs)) \<subseteq> set (timestamps rs)"
      using set_boolean_index [of bs' rs] by (auto simp: set_timestamps)
    show ?thesis
      using Cons.prems tail sub
      by (auto simp: Cons boolean_index_Cons timestamps_Cons sorted_append split: option.splits)
  qed
qed

lemma diff_from_nonneg:
  assumes "sorted (timestamps rs)"
    and "\<forall>a. c = Some a \<longrightarrow> (\<forall>t\<in>set (timestamps rs). a \<le> t)"
    and "Some d \<in> set (diff_from c (map datetime rs))"
  shows "0 \<le> d"
  using assms
proof (induction rs arbitrary: c)
  case Nil
  then show ?case by simp
next
  case (Cons r rs)
  from Cons.prems(3) consider
    (head) "Some d = (case (c, datetime r) of (Some a, Some b) \<Rightarrow> Some (b - a) | _ \<Rightarrow> None)"
    | (tail) "Some d \<in> set (diff_from (datetime r) (map datetime rs))"
    by auto
  then show ?case
  proof cases
    case head
    then obtain a b where "c = Some a" "datetime r = Some b" "d = b - a"
      by (auto split: option.splits)
    with Cons.prems(2) show ?thesis
      by (auto simp: timestamps_Cons)
  next
    case tail
    have "sorted (timestamps rs)"
      using Cons.prems(1) by (auto simp: timestamps_Cons sorted_append split: option.splits)
    moreover have "\<forall>a. datetime r = Some a \<longrightarrow> (\<forall>t\<in>set (timestamps rs). a \<le> t)"
      using Cons.prems(1) by (auto simp: timestamps_Cons)
    ultimately show ?thesis
      using tail by (rule Cons.IH)
  qed
qed

lemma df_response_times_nonneg:
  assumes "sorted (timestamps df)" and "r \<in> set (df_response_times df)"
    and "response_time r = Some d"
  shows "0 \<le> d"
proof -
  define changes where "changes = boolean_index (sender_change df) df"
  from assms(2) obtain l d' where "(l, d') \<in> set (zip changes (diff (map datetime changes)))"
    and "r = with_response_time l d'"
    by (auto simp: df_response_times_def changes_def [symmetric] Let_def)
  with assms(3) have "Some d \<in> set (diff_from None (map datetime changes))"
    by (auto simp: with_response_time_def diff_def dest: set_zip_rightD)
  moreover have "sorted (timestamps changes)"
    unfolding changes_def using assms(1) by (rule sorted_timestamps_boolean_index)
  ultimately show ?thesis
    using diff_from_nonneg [of changes None d] by simp
qed

lemma merge_outer_rows:
  assumes "r \<in># merge_outer left right"
  shows "(\<exists>l\<in>set left. message r = message l
            \<and> (response_time r = None \<or> (\<exists>r'\<in>set right. response_time r = response_time r')))
         \<or> r \<in> set right"
proof -
  from assms have "r \<in> set (merge_rows left right)"
    by (simp add: merge_outer_def)
  then consider (left) l where "l \<in> set left"
      "r \<in> set (let rs = filter (\<lambda>r. key r = key l) right
                 in if rs = [] then [with_response_time l None]
                    else map (\<lambda>r. with_response_time l (response_time r)) rs)"
    | (right) "r \<in> set right"
    by (auto simp: merge_rows_def)
  then show ?thesis
  proof cases
    case left
    then have "message r = message l
        \<and> (response_time r = None \<or> (\<exists>r'\<in>set right. response_time r = response_time r'))"
      by (auto simp: Let_def with_response_time_def split: if_splits)
    with left(1) show ?thesis by blast
  next
    case right
    then show ?thesis by (rule disjI2)
  qed
qed

lemma main_records_rows:
  "reconstruct lines = Inr df \<Longrightarrow> merge_rows df (df_response_times df) = rows \<Longrightarrow>
   main_records lines = Inr (mset rows)"
  by (simp add: main_records_def merge_outer_def)

text \<open>
  Claim C9. When the timestamps of the reconstructed records never decrease in row
  order, every response time present in the table after the merge is at least zero.
\<close>

theorem response_time_nonnegative:
  assumes "reconstruct lines = Inr df" and "timestamps_nondecreasing df"
    and "main_records lines = Inr out" and "r \<in># out" and "response_time r = Some d"
  shows "0 \<le> d"
proof -
  from assms(1,3) have out: "out = merge_outer df (df_response_times df)"
    by (simp add: main_records_def)
  from assms(2) have sorted: "sorted (timestamps df)"
    by (simp add: timestamps_nondecreasing_def)
  from merge_outer_rows [of r df "df_response_times df"] assms(4,5) out
  obtain r' where "r' \<in> set (df_response_times df)" "response_time r' = Some d"
    by auto
  with sorted show ?thesis
    by (rule df_response_times_nonneg)
qed


theorem response_time_nonnegative_witness:
  "reconstruct [''[01.01.23, 10:00:00] Alice: Hi'' @ [newline],
                ''[01.01.23, 10:05:00] Bob: Hello'' @ [newline]]
     = Inr [\<lparr>datetime = Some 1672567200, messenger = Some ''Alice'', message = ''Hi'',
              date = Some 19358, time = Some 36000\<rparr>,
            \<lparr>datetime = Some 1672567500, messenger = Some ''Bob'', message = ''Hello'',
              date = Some 19358, time = Some 36300\<rparr>]
   \<and> main_records [''[01.01.23, 10:00:00] Alice: Hi'' @ [newline],
                    ''[01.01.23, 10:05:00] Bob: Hello'' @ [newline]]
     = Inr (mset [\<lparr>datetime = Some 1672567200, messenger = Some ''Alice'', message = ''Hi'',
              date = Some 19358, time = Some 36000, response_time = None\<rparr>,
            \<lparr>datetime = Some 1672567500, messenger = Some ''Bob'', message = ''Hello'',
              date = Some 19358, time = Some 36300, response_time = Some 300\<rparr>])
   \<and> (0::int) \<le> 300"
proof -
  let ?lines = "[''[01.01.23, 10:00:00] Alice: Hi'' @ [newline],
                 ''[01.01.23, 10:05:00] Bob: Hello'' @ [newline]]"
  let ?df = "[\<lparr>datetime = Some 1672567200, messenger = Some ''Alice'', message = ''Hi'',
              date = Some 19358, time = Some 36000\<rparr>,
            \<lparr>datetime = Some 1672567500, messenger = Some ''Bob'', message = ''Hello'',
              date = Some 19358, time = Some 36300\<rparr>]"
  let ?a = "\<lparr>datetime = Some 1672567200, messenger = Some ''Alice'', message = ''Hi'',
              date = Some 19358, time = Some 36000, response_time = None\<rparr>"
  let ?b = "\<lparr>datetime = Some 1672567500, messenger = Some ''Bob'', message = ''Hello'',
              date = Some 19358, time = Some 36300, response_time = Some 300\<rparr>"
  have rec: "reconstruct ?lines = Inr ?df"
    by code_simp
  have nondecr: "timestamps_nondecreasing ?df"
    by code_simp
  have rows: "merge_rows ?df (df_response_times ?df) = [?a, ?b]"
    by code_simp
  have out: "main_records ?lines = Inr (mset [?a, ?b])"
    using rec rows by (rule main_records_rows)
  have mem: "?b \<in># mset [?a, ?b]"
    by simp
  have rt: "response_time ?b = Some 300"
    by simp
  from response_time_nonnegative [OF rec nondecr out mem rt] rec out
  show ?thesis by blast
qed

subsection \<open>Lines with an empty body\<close>

lemma groupdicts_map: "groupdicts lines = Inr (map (\<lambda>l. the (re_search l)) lines)"
proof (induction lines)
  case Nil
  show ?case by simp
next
  case (Cons l ls)
  obtain g where "re_search l = Some g"
    using re_match_total [of l] by (auto simp: re_search_eq)
  with Cons show ?case by simp
qed

lemma empty_body_the: "empty_body l = (gd_message (the (re_search l)) = [])"
  using re_match_total [of l] by (auto simp: empty_body_def re_search_eq)

lemma has_prefix_the: "has_prefix l = (gd_messenger (the (re_search l)) \<noteq> None)"
  using re_match_total [of l] by (auto simp: has_prefix_def re_search_eq)

lemma read_table_drop_empty:
  assumes "empty_body l" and "xs @ ys \<noteq> []"
  shows "read_table (xs @ l # ys) = read_table (xs @ ys)"
  using assms by (simp add: read_table_def groupdicts_map empty_body_the)

lemma message_df_response_times:
  assumes "r \<in> set (df_response_times df)"
  shows "\<exists>l\<in>set df. message r = message l"
proof -
  define changes where "changes = boolean_index (sender_change df) df"
  from assms obtain l d where ld: "(l, d) \<in> set (zip changes (diff (map datetime changes)))"
    and r: "r = with_response_time l d"
    by (auto simp: df_response_times_def changes_def [symmetric] Let_def)
  from ld have "l \<in> set changes" by (rule set_zip_leftD)
  moreover have "set changes \<subseteq> set df"
    unfolding changes_def by (rule set_boolean_index)
  ultimately have "l \<in> set df" by (rule set_mp [rotated])
  moreover have "message r = message l"
    by (simp add: r with_response_time_def)
  ultimately show ?thesis by (rule bexI [rotated])
qed

lemma message_fillna_ffill:
  assumes "l \<in> set (fillna_ffill df)"
  shows "message l \<in> message ` set df"
proof -
  from assms have "message l \<in> set (map message (fillna_ffill df))"
    by simp
  also have "map message (fillna_ffill df) = map message df"
    unfolding fillna_ffill_def by (rule message_ffill_from)
  finally show ?thesis by simp
qed

text \<open>
  Claim C6. Every record of the table after the merge has a body that is not empty. A
  line whose body is empty is left out and changes nothing else: a file made of that
  line alone gives no record, and in a longer file the records are those of the file
  without the line, so that a prefix on such a line is not carried to the continuation
  lines after it.
\<close>

theorem empty_body_line_excluded:
  "(main_records lines = Inr out \<longrightarrow> (\<forall>r\<in>#out. message r \<noteq> []))
   \<and> (empty_body l \<longrightarrow> reconstruct [l] = Inr [] \<and> main_records [l] = Inr {#})
   \<and> (empty_body l \<and> xs @ ys \<noteq> [] \<longrightarrow>
        reconstruct (xs @ l # ys) = reconstruct (xs @ ys)
        \<and> main_records (xs @ l # ys) = main_records (xs @ ys))"
proof (intro conjI impI)
  assume run: "main_records lines = Inr out"
  then obtain df0 where tab: "read_table lines = Inr df0"
    and out: "out = merge_outer (fillna_ffill df0) (df_response_times (fillna_ffill df0))"
    by (auto simp: main_records_def reconstruct_def split: sum.splits)
  have filled: "message l \<noteq> []" if "l \<in> set (fillna_ffill df0)" for l
  proof -
    from message_fillna_ffill [OF that] obtain l0 where "l0 \<in> set df0" "message l = message l0"
      by auto
    with read_table_rows [OF tab] show ?thesis
      by (auto simp: row_ok_def)
  qed
  show "\<forall>r\<in>#out. message r \<noteq> []"
  proof
    fix r assume "r \<in># out"
    from merge_outer_rows [OF this [unfolded out]]
    obtain l where "l \<in> set (fillna_ffill df0)" "message r = message l"
      using message_df_response_times by blast
    with filled show "message r \<noteq> []" by simp
  qed
next
  assume "empty_body l"
  then show "reconstruct [l] = Inr []"
    by (simp add: reconstruct_def read_table_def groupdicts_map empty_body_the fillna_ffill_def)
  then show "main_records [l] = Inr {#}"
    by (simp add: main_records_def merge_outer_def merge_rows_def df_response_times_def
        sender_change_def shift1_def diff_def)
next
  assume "empty_body l \<and> xs @ ys \<noteq> []"
  then have "read_table (xs @ l # ys) = read_table (xs @ ys)"
    by (simp add: read_table_drop_empty)
  then show "reconstruct (xs @ l # ys) = reconstruct (xs @ ys)"
    by (simp add: reconstruct_def)
  then show "main_records (xs @ l # ys) = main_records (xs @ ys)"
    by (simp add: main_records_def)
qed


theorem empty_body_line_excluded_witness:
  "main_records [''[01.01.23, 10:00:00] Alice: Hi'' @ [newline],
                 ''[01.01.23, 10:05:00] Bob: '' @ [newline], ''there'' @ [newline]]
     = Inr (mset [\<lparr>datetime = Some 1672567200, messenger = Some ''Alice'', message = ''Hi'',
              date = Some 19358, time = Some 36000, response_time = None\<rparr>,
            \<lparr>datetime = Some 1672567200, messenger = Some ''Alice'', message = ''there'',
              date = Some 19358, time = Some 36000, response_time = None\<rparr>])
   \<and> empty_body (''[01.01.23, 10:05:00] Bob: '' @ [newline])
   \<and> reconstruct [''[01.01.23, 10:05:00] Bob: '' @ [newline]] = Inr []
   \<and> reconstruct [''[01.01.23, 10:00:00] Alice: Hi'' @ [newline],
                   ''[01.01.23, 10:05:00] Bob: '' @ [newline], ''there'' @ [newline]]
       = reconstruct [''[01.01.23, 10:00:00] Alice: Hi'' @ [newline], ''there'' @ [newline]]"
proof -
  let ?a = "''[01.01.23, 10:00:00] Alice: Hi'' @ [newline]"
  let ?l = "''[01.01.23, 10:05:00] Bob: '' @ [newline]"
  let ?t = "''there'' @ [newline]"
  let ?out = "[\<lparr>datetime = Some 1672567200, messenger = Some ''Alice'', message = ''Hi'',
              date = Some 19358, time = Some 36000, response_time = None\<rparr>,
            \<lparr>datetime = Some 1672567200, messenger = Some ''Alice'', message = ''there'',
              date = Some 19358, time = Some 36000, response_time = None\<rparr>]"
  let ?df = "[\<lparr>datetime = Some 1672567200, messenger = Some ''Alice'', message = ''Hi'',
              date = Some 19358, time = Some 36000\<rparr>,
            \<lparr>datetime = Some 1672567200, messenger = Some ''Alice'', message = ''there'',
              date = Some 19358, time = Some 36000\<rparr>]"
  have rec: "reconstruct [?a, ?l, ?t] = Inr ?df"
    by code_simp
  have rows: "merge_rows ?df (df_response_times ?df) = ?out"
    by code_simp
  have run: "main_records [?a, ?l, ?t] = Inr (mset ?out)"
    using rec rows by (rule main_records_rows)
  have empty: "empty_body ?l"
    by code_simp
  have more: "[?a] @ [?t] \<noteq> []"
    by simp
  from empty_body_line_excluded [of "[?a, ?l, ?t]" "mset ?out" ?l "[?a]" "[?t]"] run empty more
  have "reconstruct [?l] = Inr []"
    and "reconstruct ([?a] @ ?l # [?t]) = reconstruct ([?a] @ [?t])"
    by blast+
  with run empty show ?thesis
    by simp
qed

subsection \<open>The classifier never fails, the timestamp parser may\<close>

lemma strptime_error: "strptime s = Inl e \<Longrightarrow> e = ValueError"
  by (auto simp: strptime_def Let_def split: option.splits prod.splits list.splits if_splits)

lemma to_datetime_Inl: "to_datetime xs = Inl e \<Longrightarrow> \<exists>s. Some s \<in> set xs \<and> strptime s = Inl e"
proof (induction xs rule: to_datetime.induct)
  case 1
  then show ?case by simp
next
  case (2 xs)
  then show ?case by (auto split: sum.splits)
next
  case (3 s xs)
  then show ?case by (auto split: sum.splits)
qed

lemma to_datetime_error: "to_datetime xs = Inl e \<Longrightarrow> e = ValueError"
  using to_datetime_Inl strptime_error by blast

lemma dot_star_line:
  assumes "newline \<notin> set body" and "line = body \<or> line = body @ [newline]"
  shows "dot_star line = body"
proof -
  have "takeWhile (\<lambda>c. c \<noteq> newline) body = body"
    using assms(1) by (auto simp: takeWhile_eq_all_conv)
  moreover have "takeWhile (\<lambda>c. c \<noteq> newline) (body @ [newline]) = body"
    using assms(1) by (subst takeWhile_append2) auto
  ultimately show ?thesis
    using assms(2) by (auto simp: dot_star_def)
qed

text \<open>
  Claim C4, as amended. For a line as \<open>readlines\<close> returns it (a body without a
  newline, followed by a newline or, at the end of the file, by nothing) the search
  succeeds, so \<open>.groupdict()\<close> never raises; timestamp and sender are both present or
  both absent; when the prefix does not match they are absent, the body is the whole
  line without its newline, and the timestamp column keeps the missing value. When
  \<open>pd.to_datetime\<close> raises on the captured text, the exception is \<open>ValueError\<close> and
  the line has the prefix. It does raise for a prefix that the expression accepts: the
  prefix of \<open>[12.31.23, 10:00:00] Alice: Hi\<close> is captured, and its timestamp raises
  \<open>ValueError\<close>.
\<close>

theorem line_classifier_total:
  assumes "newline \<notin> set body" and "line = body \<or> line = body @ [newline]"
  shows "(\<exists>g. re_search line = Some g \<and> groupdicts [line] = Inr [g]
           \<and> (gd_datetime g = None) = (gd_messenger g = None)
           \<and> (has_prefix line \<or>
                g = \<lparr>gd_datetime = None, gd_messenger = None, gd_message = body\<rparr>
                \<and> to_datetime [gd_datetime g] = Inr [None])
           \<and> (\<forall>e. to_datetime [gd_datetime g] = Inl e \<longrightarrow> e = ValueError \<and> has_prefix line))
       \<and> re_search (''[12.31.23, 10:00:00] Alice: Hi'' @ [newline])
           = Some \<lparr>gd_datetime = Some ''12.31.23, 10:00:00'', gd_messenger = Some ''Alice'',
                    gd_message = ''Hi''\<rparr>
       \<and> to_datetime [Some ''12.31.23, 10:00:00''] = Inl ValueError"
proof -
  obtain g where g: "re_match line = Some g"
    using re_match_total by blast
  then have search: "re_search line = Some g"
    by (simp add: re_search_eq)
  then have dicts: "groupdicts [line] = Inr [g]"
    by simp
  have both: "(gd_datetime g = None) = (gd_messenger g = None)"
    using g by (rule re_match_both)
  have pre: "has_prefix line = (gd_messenger g \<noteq> None)"
    by (simp add: has_prefix_def search)
  have fallback: "g = \<lparr>gd_datetime = None, gd_messenger = None, gd_message = body\<rparr>"
    if no: "\<not> has_prefix line"
  proof (cases "match_prefix line")
    case None
    with g have "g = \<lparr>gd_datetime = None, gd_messenger = None, gd_message = dot_star line\<rparr>"
      by (simp add: re_match_def)
    then show ?thesis
      by (simp only: dot_star_line [OF assms])
  next
    case (Some t)
    obtain dt name rest where "t = (dt, name, rest)"
      by (cases t)
    with Some g have "gd_messenger g = Some name"
      by (auto simp: re_match_def)
    with no pre show ?thesis by simp
  qed
  have absent: "to_datetime [gd_datetime g] = Inr [None]" if "\<not> has_prefix line"
  proof -
    from that pre both have "gd_datetime g = None" by simp
    then show ?thesis by simp
  qed
  have raises: "e = ValueError \<and> has_prefix line" if err: "to_datetime [gd_datetime g] = Inl e" for e
  proof
    from err show "e = ValueError" by (rule to_datetime_error)
    show "has_prefix line"
    proof (rule ccontr)
      assume "\<not> has_prefix line"
      then have "to_datetime [gd_datetime g] = Inr [None]" by (rule absent)
      with err show False by simp
    qed
  qed
  have alt: "has_prefix line \<or>
          g = \<lparr>gd_datetime = None, gd_messenger = None, gd_message = body\<rparr>
          \<and> to_datetime [gd_datetime g] = Inr [None]"
  proof (cases "has_prefix line")
    case True
    then show ?thesis by (rule disjI1)
  next
    case False
    from fallback [OF False] absent [OF False] show ?thesis
      by (intro disjI2 conjI)
  qed
  have err: "\<forall>e. to_datetime [gd_datetime g] = Inl e \<longrightarrow> e = ValueError \<and> has_prefix line"
  proof (intro allI impI)
    fix e assume "to_datetime [gd_datetime g] = Inl e"
    then show "e = ValueError \<and> has_prefix line" by (rule raises)
  qed
  have general: "\<exists>g. re_search line = Some g \<and> groupdicts [line] = Inr [g]
           \<and> (gd_datetime g = None) = (gd_messenger g = None)
           \<and> (has_prefix line \<or>
                g = \<lparr>gd_datetime = None, gd_messenger = None, gd_message = body\<rparr>
                \<and> to_datetime [gd_datetime g] = Inr [None])
           \<and> (\<forall>e. to_datetime [gd_datetime g] = Inl e \<longrightarrow> e = ValueError \<and> has_prefix line)"
    by (rule exI [of _ g]) (intro conjI search dicts both alt err)
  have captured: "re_search (''[12.31.23, 10:00:00] Alice: Hi'' @ [newline])
           = Some \<lparr>gd_datetime = Some ''12.31.23, 10:00:00'', gd_messenger = Some ''Alice'',
                    gd_message = ''Hi''\<rparr>"
    by code_simp
  have raised: "to_datetime [Some ''12.31.23, 10:00:00''] = Inl ValueError"
    by code_simp
  from general captured raised show ?thesis
    by (intro conjI)
qed

theorem line_classifier_total_witness:
  "newline \<notin> set ''there'' \<and> \<not> has_prefix (''there'' @ [newline])
   \<and> re_search (''there'' @ [newline])
       = Some \<lparr>gd_datetime = None, gd_messenger = None, gd_message = ''there''\<rparr>
   \<and> to_datetime [None] = Inr [None]"
proof -
  have body: "newline \<notin> set ''there''"
    by (simp add: newline_def)
  have line: "''there'' @ [newline] = ''there'' \<or> ''there'' @ [newline] = ''there'' @ [newline]"
    by simp
  have no: "\<not> has_prefix (''there'' @ [newline])"
    by code_simp
  from line_classifier_total [OF body line, THEN conjunct1]
  obtain g where search: "re_search (''there'' @ [newline]) = Some g"
    and alt: "has_prefix (''there'' @ [newline]) \<or>
       g = \<lparr>gd_datetime = None, gd_messenger = None, gd_message = ''there''\<rparr>
       \<and> to_datetime [gd_datetime g] = Inr [None]"
    by blast
  from alt no have g: "g = \<lparr>gd_datetime = None, gd_messenger = None, gd_message = ''there''\<rparr>"
    by blast
  from search g body no show ?thesis
    by simp
qed

text \<open>
  Claim C4 as stated fails for a line whose prefix matches the expression and is not a
  date: \<open>\d{2}\<close> admits 31 as a month, and \<open>pd.to_datetime\<close> raises \<open>ValueError\<close>.
\<close>

theorem timestamp_parsing_raises:
  "re_search (''[12.31.23, 10:00:00] Alice: Hi'' @ [newline])
     = Some \<lparr>gd_datetime = Some ''12.31.23, 10:00:00'', gd_messenger = Some ''Alice'',
              gd_message = ''Hi''\<rparr>
   \<and> to_datetime [Some ''12.31.23, 10:00:00''] = Inl ValueError
   \<and> main_records [''[12.31.23, 10:00:00] Alice: Hi'' @ [newline]] = Inl ValueError"
  by code_simp

subsection \<open>The rows of the lines\<close>

lemma to_datetime_Inr_map:
  "to_datetime xs = Inr ts \<Longrightarrow>
   ts = map (\<lambda>x. case x of None \<Rightarrow> None
                  | Some s \<Rightarrow> (case strptime s of Inl e \<Rightarrow> None | Inr t \<Rightarrow> Some t)) xs"
proof (induction xs arbitrary: ts rule: to_datetime.induct)
  case 1
  then show ?case by simp
next
  case (2 xs)
  then show ?case by (auto split: sum.splits)
next
  case (3 s xs)
  then show ?case by (auto split: sum.splits)
qed

lemma kept_groups:
  "filter (\<lambda>g. gd_message g \<noteq> []) (map (\<lambda>l. the (re_search l)) lines)
   = map (\<lambda>l. the (re_search l)) (filter (\<lambda>x. \<not> empty_body x) lines)"
  by (simp add: filter_map comp_def empty_body_the)

lemma line_row_the:
  "line_row x = make_row (the (re_search x))
     (case gd_datetime (the (re_search x)) of None \<Rightarrow> None
      | Some s \<Rightarrow> (case strptime s of Inl e \<Rightarrow> None | Inr t \<Rightarrow> Some t))"
  using re_match_total [of x] by (auto simp: line_row_def re_search_eq)

lemma line_body_the: "line_body x = gd_message (the (re_search x))"
  using re_match_total [of x] by (auto simp: line_body_def re_search_eq)

lemma read_table_line_rows:
  assumes "read_table lines = Inr df"
  shows "df = map line_row (filter (\<lambda>x. \<not> empty_body x) lines)"
proof -
  define G where "G = (\<lambda>l. the (re_search l))"
  define kept where "kept = filter (\<lambda>x. \<not> empty_body x) lines"
  define parse where "parse = (\<lambda>x. case x of None \<Rightarrow> None
      | Some s \<Rightarrow> (case strptime s of Inl (e::py_error) \<Rightarrow> None | Inr t \<Rightarrow> Some (t::int)))"
  from assms obtain ts where ts: "to_datetime (map gd_datetime (map G kept)) = Inr ts"
    and df: "df = map2 make_row (map G kept) ts"
    by (auto simp: read_table_def groupdicts_map kept_groups G_def kept_def Let_def
        split: if_splits sum.splits)
  from to_datetime_Inr_map [OF ts] have "ts = map (\<lambda>x. parse (gd_datetime (G x))) kept"
    by (simp add: parse_def comp_def)
  then have "df = map (\<lambda>x. make_row (G x) (parse (gd_datetime (G x)))) kept"
    unfolding df by (simp add: map2_map_map)
  then show ?thesis
    by (simp add: line_row_the G_def parse_def kept_def)
qed

lemma message_line_row: "message (line_row x) = line_body x"
  by (simp add: line_row_the line_body_the make_row_def)

lemma messenger_line_row: "re_search x = Some g \<Longrightarrow> messenger (line_row x) = gd_messenger g"
  by (simp add: line_row_def make_row_def)

lemma line_row_continuation:
  assumes "\<not> has_prefix x"
  shows "line_row x
    = \<lparr>datetime = None, messenger = None, message = line_body x, date = None, time = None\<rparr>"
proof -
  obtain g where g: "re_search x = Some g"
    using re_match_total [of x] by (auto simp: re_search_eq)
  with assms have "gd_messenger g = None"
    by (simp add: has_prefix_def)
  moreover from this g have "gd_datetime g = None"
    using re_match_both [of x g] by (simp add: re_search_eq)
  ultimately show ?thesis
    using g by (simp add: line_row_def line_body_def make_row_def)
qed

lemma fill_row_blank:
  assumes "datetime c = None" "messenger c = None" "date c = None" "time c = None"
    and "datetime r = None" "messenger r = None" "date r = None" "time r = None"
  shows "fill_row c r = r"
proof -
  have "fill_row c r
      = \<lparr>datetime = None, messenger = None, message = message r, date = None, time = None\<rparr>"
    by (simp add: fill_row_def fill_def assms)
  also have "\<dots> = r"
    by (rule row.equality) (simp_all add: assms)
  finally show ?thesis .
qed

lemma ffill_from_blank:
  "datetime c = None \<Longrightarrow> messenger c = None \<Longrightarrow> date c = None \<Longrightarrow> time c = None \<Longrightarrow>
   \<forall>r\<in>set rs. datetime r = None \<and> messenger r = None \<and> date r = None \<and> time r = None \<Longrightarrow>
   ffill_from c rs = rs"
proof (induction rs arbitrary: c)
  case Nil
  show ?case by simp
next
  case (Cons r rs)
  have r: "datetime r = None" "messenger r = None" "date r = None" "time r = None"
    using Cons.prems(5) by simp_all
  have rest: "\<forall>r\<in>set rs. datetime r = None \<and> messenger r = None \<and> date r = None \<and> time r = None"
    using Cons.prems(5) by simp
  have step: "fill_row c r = r"
    by (rule fill_row_blank [OF Cons.prems(1-4) r])
  have "ffill_from r rs = rs"
    by (rule Cons.IH [OF r rest])
  then show ?case
    by (simp add: step)
qed

subsection \<open>A file that starts with a continuation line\<close>

text \<open>
  Claim C3, as amended. Let \<open>pre\<close> be the lines before the first line that has the
  prefix and a body, one of them with a body. The reconstruction does not reject the
  file: it returns the records, and the records of the lines of \<open>pre\<close> come first,
  each with the body of its line and without sender, timestamp, date and time. It
  raises only \<open>ValueError\<close>, and only when a later line with a body has a prefix
  whose timestamp does not parse.
\<close>

theorem leading_continuation_not_rejected:
  assumes pre: "\<forall>x\<in>set pre. empty_body x \<or> \<not> has_prefix x"
    and first: "\<exists>x\<in>set pre. \<not> empty_body x"
  shows "(\<exists>rs. reconstruct (pre @ post)
            = Inr (map (\<lambda>x. \<lparr>datetime = None, messenger = None, message = line_body x,
                               date = None, time = None\<rparr>)
                       (filter (\<lambda>x. \<not> empty_body x) pre) @ rs)
            \<and> length rs = length (filter (\<lambda>x. \<not> empty_body x) post))
       \<or> (reconstruct (pre @ post) = Inl ValueError
           \<and> (\<exists>x\<in>set post. \<exists>h s. re_search x = Some h \<and> gd_message h \<noteq> []
                 \<and> gd_datetime h = Some s \<and> strptime s = Inl ValueError))"
proof (cases "read_table (pre @ post)")
  case (Inl e)
  define G where "G = (\<lambda>l. the (re_search l))"
  define kept where "kept = filter (\<lambda>x. \<not> empty_body x) (pre @ post)"
  from first have "pre @ post \<noteq> []" by auto
  with Inl have "to_datetime (map gd_datetime (map G kept)) = Inl e"
    by (auto simp: read_table_def groupdicts_map kept_groups G_def kept_def Let_def
        split: if_splits sum.splits)
  from to_datetime_Inl [OF this] obtain s where s: "Some s \<in> set (map gd_datetime (map G kept))"
    and bad: "strptime s = Inl e"
    by blast
  from bad have e: "e = ValueError" by (rule strptime_error)
  from s obtain x where x: "x \<in> set kept" "gd_datetime (G x) = Some s"
    by auto
  have Gx: "re_search x = Some (G x)"
    using re_match_total [of x] by (auto simp: G_def re_search_eq)
  have "\<not> empty_body x"
    using x(1) by (auto simp: kept_def)
  then have body: "gd_message (G x) \<noteq> []"
    by (simp add: empty_body_the G_def)
  have "x \<notin> set pre"
  proof
    assume "x \<in> set pre"
    with pre x(1) have "\<not> has_prefix x" by (auto simp: kept_def)
    then have "gd_messenger (G x) = None" by (simp add: has_prefix_def Gx)
    then have "gd_datetime (G x) = None"
      using re_match_both [of x "G x"] Gx by (simp add: re_search_eq)
    with x(2) show False by simp
  qed
  with x(1) have post: "x \<in> set post" by (auto simp: kept_def)
  from bad e have bad': "strptime s = Inl ValueError" by simp
  have "\<exists>h s. re_search x = Some h \<and> gd_message h \<noteq> []
                 \<and> gd_datetime h = Some s \<and> strptime s = Inl ValueError"
    by (intro exI [of _ "G x"] exI [of _ s] conjI Gx body x(2) bad')
  with post have ex: "\<exists>x\<in>set post. \<exists>h s. re_search x = Some h \<and> gd_message h \<noteq> []
                 \<and> gd_datetime h = Some s \<and> strptime s = Inl ValueError"
    by (rule bexI [rotated])
  have raised: "reconstruct (pre @ post) = Inl ValueError"
    using Inl e by (simp add: reconstruct_def)
  show ?thesis
    by (rule disjI2) (intro conjI raised ex)
next
  case (Inr df)
  define blank where "blank = (\<lambda>x. \<lparr>datetime = None, messenger = None, message = line_body x,
                               date = None, time = None\<rparr>)"
  define X where "X = map blank (filter (\<lambda>x. \<not> empty_body x) pre)"
  define Y where "Y = map line_row (filter (\<lambda>x. \<not> empty_body x) post)"
  have "map line_row (filter (\<lambda>x. \<not> empty_body x) pre) = X"
    unfolding X_def using pre by (intro map_cong) (auto simp: line_row_continuation blank_def)
  with read_table_line_rows [OF Inr] have df: "df = X @ Y"
    by (simp add: Y_def)
  have X: "ffill_from no_row X = X"
    by (rule ffill_from_blank) (auto simp: no_row_def X_def blank_def)
  have "ffill_from no_row (X @ Y) = ffill_from no_row X @ ffill_from (last (no_row # ffill_from no_row X)) Y"
    by (rule ffill_from_append)
  then have "fillna_ffill df = X @ ffill_from (last (no_row # X)) Y"
    by (simp only: fillna_ffill_def df X)
  moreover have "length (ffill_from (last (no_row # X)) Y) = length (filter (\<lambda>x. \<not> empty_body x) post)"
    by (simp add: length_ffill_from Y_def)
  ultimately have "reconstruct (pre @ post) = Inr (X @ ffill_from (last (no_row # X)) Y)
       \<and> length (ffill_from (last (no_row # X)) Y) = length (filter (\<lambda>x. \<not> empty_body x) post)"
    using Inr by (simp add: reconstruct_def)
  then have "\<exists>rs. reconstruct (pre @ post) = Inr (X @ rs)
       \<and> length rs = length (filter (\<lambda>x. \<not> empty_body x) post)"
    by (rule exI)
  then show ?thesis
    unfolding X_def blank_def by (rule disjI1)
qed

theorem leading_continuation_not_rejected_witness:
  "\<not> empty_body (''hello'' @ [newline]) \<and> \<not> has_prefix (''hello'' @ [newline])
   \<and> \<not> empty_body (''you'' @ [newline]) \<and> \<not> has_prefix (''you'' @ [newline])
   \<and> (\<exists>rs. reconstruct ([''hello'' @ [newline], ''you'' @ [newline]]
                           @ [''[01.01.23, 10:00:00] Alice: Hi'' @ [newline]])
          = Inr ([\<lparr>datetime = None, messenger = None, message = ''hello'',
                    date = None, time = None\<rparr>,
                  \<lparr>datetime = None, messenger = None, message = ''you'',
                    date = None, time = None\<rparr>] @ rs)
          \<and> length rs = 1)"
proof -
  let ?pre = "[''hello'' @ [newline], ''you'' @ [newline]]"
  let ?post = "[''[01.01.23, 10:00:00] Alice: Hi'' @ [newline]]"
  have h: "\<not> empty_body (''hello'' @ [newline])" "\<not> has_prefix (''hello'' @ [newline])"
    and y: "\<not> empty_body (''you'' @ [newline])" "\<not> has_prefix (''you'' @ [newline])"
    by code_simp+
  have pre: "\<forall>x\<in>set ?pre. empty_body x \<or> \<not> has_prefix x"
    using h y by simp
  have first: "\<exists>x\<in>set ?pre. \<not> empty_body x"
    using h by simp
  have ok: "reconstruct (?pre @ ?post) \<noteq> Inl ValueError"
    by code_simp
  have kept: "filter (\<lambda>x. \<not> empty_body x) ?pre = ?pre"
    using h y by simp
  have bodies: "line_body (''hello'' @ [newline]) = ''hello''"
    "line_body (''you'' @ [newline]) = ''you''"
    by code_simp+
  have post: "length (filter (\<lambda>x. \<not> empty_body x) ?post) = 1"
    by code_simp
  from leading_continuation_not_rejected [OF pre first, of ?post] ok
  obtain rs where "reconstruct (?pre @ ?post)
            = Inr (map (\<lambda>x. \<lparr>datetime = None, messenger = None, message = line_body x,
                               date = None, time = None\<rparr>)
                       (filter (\<lambda>x. \<not> empty_body x) ?pre) @ rs)"
    and "length rs = length (filter (\<lambda>x. \<not> empty_body x) ?post)"
    by blast
  then have "reconstruct (?pre @ ?post)
          = Inr ([\<lparr>datetime = None, messenger = None, message = ''hello'',
                    date = None, time = None\<rparr>,
                  \<lparr>datetime = None, messenger = None, message = ''you'',
                    date = None, time = None\<rparr>] @ rs)
          \<and> length rs = 1"
    unfolding kept post list.map bodies by simp
  then have "\<exists>rs. reconstruct (?pre @ ?post)
          = Inr ([\<lparr>datetime = None, messenger = None, message = ''hello'',
                    date = None, time = None\<rparr>,
                  \<lparr>datetime = None, messenger = None, message = ''you'',
                    date = None, time = None\<rparr>] @ rs)
          \<and> length rs = 1"
    by (rule exI)
  with h y show ?thesis
    by (intro conjI)
qed

text \<open>
  Claim C3 as stated fails: no exception is raised, and the record of the first line
  has neither sender nor timestamp.
\<close>

theorem leading_continuation_gives_records:
  "\<not> has_prefix (''hello'' @ [newline])
   \<and> reconstruct [''hello'' @ [newline], ''[01.01.23, 10:00:00] Alice: Hi'' @ [newline]]
     = Inr [\<lparr>datetime = None, messenger = None, message = ''hello'', date = None, time = None\<rparr>,
            \<lparr>datetime = Some 1672567200, messenger = Some ''Alice'', message = ''Hi'',
              date = Some 19358, time = Some 36000\<rparr>]"
  by code_simp

subsection \<open>Continuation lines, line by line\<close>

text \<open>
  Claim C5, as amended. Let \<open>c\<close> be a line without the prefix and with a body, \<open>p\<close>
  the nearest line before it that has the prefix and a body, so that every line
  between them has no body or no prefix. When the reconstruction returns, it gives one
  record for every line with a body, in line order, with the body of its line
  (nothing is appended to another record), and the record of \<open>c\<close> has the sender of
  \<open>p\<close>, the timestamp parsed from the prefix of \<open>p\<close> and the body of \<open>c\<close>. The
  two lines \<open>[01.01.23, 10:00:00] Alice: Hi\<close> and \<open>there\<close> give exactly two
  records, both of Alice at 10:00:00 on 2023-01-01, the second with the body
  \<open>there\<close>.
\<close>

theorem continuation_line_carries_prefix:
  assumes rec: "reconstruct lines = Inr out"
    and lines: "lines = xs @ p # cs @ c # ys"
    and p: "re_search p = Some gp" "gd_messenger gp \<noteq> None" "gd_message gp \<noteq> []"
    and cs: "\<forall>x\<in>set cs. empty_body x \<or> \<not> has_prefix x"
    and c: "re_search c = Some gc" "gd_messenger gc = None" "gd_message gc \<noteq> []"
    and k: "k = length (filter (\<lambda>x. \<not> empty_body x) (xs @ p # cs))"
  shows "length out = length (filter (\<lambda>x. \<not> empty_body x) lines)
       \<and> map message out = map line_body (filter (\<lambda>x. \<not> empty_body x) lines)
       \<and> messenger (out ! k) = gd_messenger gp
       \<and> (\<exists>s t. gd_datetime gp = Some s \<and> strptime s = Inr t \<and> datetime (out ! k) = Some t)
       \<and> message (out ! k) = gd_message gc
       \<and> reconstruct [''[01.01.23, 10:00:00] Alice: Hi'' @ [newline], ''there'']
           = Inr [\<lparr>datetime = Some 1672567200, messenger = Some ''Alice'', message = ''Hi'',
                    date = Some 19358, time = Some 36000\<rparr>,
                  \<lparr>datetime = Some 1672567200, messenger = Some ''Alice'', message = ''there'',
                    date = Some 19358, time = Some 36000\<rparr>]"
proof -
  define F where "F = filter (\<lambda>x. \<not> empty_body x)"
  from rec obtain df where tab: "read_table lines = Inr df" and out: "out = fillna_ffill df"
    by (auto simp: reconstruct_def split: sum.splits)
  have kp: "\<not> empty_body p" using p by (simp add: empty_body_def)
  have kc: "\<not> empty_body c" using c by (simp add: empty_body_def)
  have df: "df = map line_row (F xs) @ line_row p # map line_row (F cs) @ line_row c # map line_row (F ys)"
    using read_table_line_rows [OF tab] kp kc by (simp add: lines F_def)
  have mp: "messenger (line_row p) \<noteq> None"
    using p by (simp add: messenger_line_row)
  have mcs: "\<forall>r\<in>set (map line_row (F cs)). messenger r = None"
  proof
    fix r assume "r \<in> set (map line_row (F cs))"
    then obtain x where x: "x \<in> set cs" "\<not> empty_body x" "r = line_row x"
      by (auto simp: F_def)
    with cs have "\<not> has_prefix x" by auto
    then show "messenger r = None"
      by (simp add: x(3) line_row_continuation)
  qed
  have mc: "messenger (line_row c) = None"
    using c by (simp add: messenger_line_row)
  from table_continuation_carries_prefix [OF tab df mp mcs mc]
  obtain out' where out': "reconstruct lines = Inr out'" and len: "length out' = length df"
    and msg: "map message out' = map message df"
    and at: "messenger (out' ! (length (map line_row (F xs)) + length (map line_row (F cs)) + 1))
               = messenger (line_row p)"
      "datetime (out' ! (length (map line_row (F xs)) + length (map line_row (F cs)) + 1))
               = datetime (line_row p)"
      "message (out' ! (length (map line_row (F xs)) + length (map line_row (F cs)) + 1))
               = message (line_row c)"
    by blast
  from rec out' have same: "out' = out" by simp
  have k': "length (map line_row (F xs)) + length (map line_row (F cs)) + 1 = k"
    using kp by (simp add: k F_def)
  note at' = at [unfolded k' same]
  have dfl: "df = map line_row (F lines)"
    using read_table_line_rows [OF tab] by (simp add: F_def)
  have 1: "length out = length (F lines)"
    using len by (simp add: same dfl)
  have 2: "map message out = map line_body (F lines)"
    using msg by (simp add: same dfl message_line_row comp_def)
  have 3: "messenger (out ! k) = gd_messenger gp"
    using at'(1) p(1) by (simp add: messenger_line_row)
  have 5: "message (out ! k) = gd_message gc"
    using at'(3) c(1) by (simp add: message_line_row line_body_def)
  have "row_ok (line_row p)"
    by (rule read_table_rows [OF tab]) (simp add: df)
  with mp have "datetime (line_row p) \<noteq> None"
    by (simp add: row_ok_def)
  then obtain s t where st: "gd_datetime gp = Some s" "strptime s = Inr t"
      "datetime (line_row p) = Some t"
    using p(1) by (auto simp: line_row_def make_row_def split: option.splits sum.splits)
  from st(3) at'(2) have "datetime (out ! k) = Some t"
    by simp
  with st have 4: "\<exists>s t. gd_datetime gp = Some s \<and> strptime s = Inr t \<and> datetime (out ! k) = Some t"
    by (intro exI conjI)
  have example: "reconstruct [''[01.01.23, 10:00:00] Alice: Hi'' @ [newline], ''there'']
           = Inr [\<lparr>datetime = Some 1672567200, messenger = Some ''Alice'', message = ''Hi'',
                    date = Some 19358, time = Some 36000\<rparr>,
                  \<lparr>datetime = Some 1672567200, messenger = Some ''Alice'', message = ''there'',
                    date = Some 19358, time = Some 36000\<rparr>]"
    by code_simp
  from 1 2 3 4 5 example show ?thesis
    unfolding F_def by (intro conjI)
qed


theorem continuation_line_carries_prefix_witness:
  "reconstruct [''[01.01.23, 10:00:00] Alice: Hi'' @ [newline],
                ''[01.01.23, 10:05:00] Bob: '' @ [newline], [newline], ''there'' @ [newline]]
     = Inr [\<lparr>datetime = Some 1672567200, messenger = Some ''Alice'', message = ''Hi'',
              date = Some 19358, time = Some 36000\<rparr>,
            \<lparr>datetime = Some 1672567200, messenger = Some ''Alice'', message = ''there'',
              date = Some 19358, time = Some 36000\<rparr>]
   \<and> re_search (''[01.01.23, 10:00:00] Alice: Hi'' @ [newline])
       = Some \<lparr>gd_datetime = Some ''01.01.23, 10:00:00'', gd_messenger = Some ''Alice'',
                gd_message = ''Hi''\<rparr>
   \<and> empty_body (''[01.01.23, 10:05:00] Bob: '' @ [newline]) \<and> empty_body [newline]
   \<and> re_search (''there'' @ [newline])
       = Some \<lparr>gd_datetime = None, gd_messenger = None, gd_message = ''there''\<rparr>
   \<and> messenger ([\<lparr>datetime = Some 1672567200, messenger = Some ''Alice'', message = ''Hi'',
              date = Some 19358, time = Some 36000\<rparr>,
            \<lparr>datetime = Some 1672567200, messenger = Some ''Alice'', message = ''there'',
              date = Some 19358, time = Some 36000\<rparr>] ! 1) = Some ''Alice''"
proof -
  let ?p = "''[01.01.23, 10:00:00] Alice: Hi'' @ [newline]"
  let ?b = "''[01.01.23, 10:05:00] Bob: '' @ [newline]"
  let ?c = "''there'' @ [newline]"
  let ?gp = "\<lparr>gd_datetime = Some ''01.01.23, 10:00:00'', gd_messenger = Some ''Alice'',
                gd_message = ''Hi''\<rparr>"
  let ?gc = "\<lparr>gd_datetime = None, gd_messenger = None, gd_message = ''there''\<rparr>"
  let ?out = "[\<lparr>datetime = Some 1672567200, messenger = Some ''Alice'', message = ''Hi'',
              date = Some 19358, time = Some 36000\<rparr>,
            \<lparr>datetime = Some 1672567200, messenger = Some ''Alice'', message = ''there'',
              date = Some 19358, time = Some 36000\<rparr>]"
  have rec: "reconstruct [?p, ?b, [newline], ?c] = Inr ?out"
    by code_simp
  have lines: "[?p, ?b, [newline], ?c] = [] @ ?p # [?b, [newline]] @ ?c # []"
    by simp
  have p: "re_search ?p = Some ?gp"
    by code_simp
  have p2: "gd_messenger ?gp \<noteq> None" "gd_message ?gp \<noteq> []"
    by simp_all
  have e: "empty_body ?b" "empty_body [newline]"
    by code_simp+
  then have cs: "\<forall>x\<in>set [?b, [newline]]. empty_body x \<or> \<not> has_prefix x"
    by simp
  have c: "re_search ?c = Some ?gc"
    by code_simp
  have c2: "gd_messenger ?gc = None" "gd_message ?gc \<noteq> []"
    by simp_all
  have k: "(1::nat) = length (filter (\<lambda>x. \<not> empty_body x) ([] @ ?p # [?b, [newline]]))"
    by code_simp
  from continuation_line_carries_prefix [OF rec lines p p2 cs c c2 k]
  have "messenger (?out ! 1) = gd_messenger ?gp"
    by blast
  then have "messenger (?out ! 1) = Some ''Alice''"
    by simp
  with rec p e c show ?thesis
    by (intro conjI)
qed

text \<open>
  Claim C5 as stated fails when the nearest prefixed line before a continuation line
  has an empty body: that line is removed before the fill, and the record of \<open>there\<close>
  carries Alice and 10:00:00, not Bob and 10:05:00.
\<close>

theorem continuation_line_skips_empty_prefix:
  "has_prefix (''[01.01.23, 10:05:00] Bob: '' @ [newline])
   \<and> \<not> has_prefix (''there'' @ [newline])
   \<and> reconstruct [''[01.01.23, 10:00:00] Alice: Hi'' @ [newline],
                   ''[01.01.23, 10:05:00] Bob: '' @ [newline], ''there'' @ [newline]]
     = Inr [\<lparr>datetime = Some 1672567200, messenger = Some ''Alice'', message = ''Hi'',
              date = Some 19358, time = Some 36000\<rparr>,
            \<lparr>datetime = Some 1672567200, messenger = Some ''Alice'', message = ''there'',
              date = Some 19358, time = Some 36000\<rparr>]"
  by code_simp

subsection \<open>The merge of a table without equal rows\<close>

lemma filter_key_find:
  "distinct (map f rs) \<Longrightarrow>
   filter (\<lambda>r. f r = k) rs = (case find (\<lambda>r. f r = k) rs of None \<Rightarrow> [] | Some r \<Rightarrow> [r])"
proof (induction rs)
  case Nil
  show ?case by simp
next
  case (Cons a rs)
  show ?case
  proof (cases "f a = k")
    case True
    have "f a \<notin> f ` set rs"
      using Cons.prems by simp
    then have "f r \<noteq> k" if "r \<in> set rs" for r
      using that True by (metis imageI)
    then have "filter (\<lambda>r. f r = k) rs = []"
      by (simp add: filter_empty_conv)
    with True show ?thesis by simp
  next
    case False
    with Cons show ?thesis by simp
  qed
qed

lemma merge_rows_matched:
  assumes right: "distinct (map key right)"
    and sub: "key ` set right \<subseteq> key ` set left"
  shows "merge_rows left right
         = map (\<lambda>l. with_response_time l
                  (case find (\<lambda>r. key r = key l) right of
                     None \<Rightarrow> None | Some r \<Rightarrow> response_time r)) left"
proof -
  have none: "filter (\<lambda>r. key r \<notin> set (map key left)) right = []"
    using sub by (auto simp: filter_empty_conv)
  have one: "(let rs = filter (\<lambda>r. key r = key l) right
              in if rs = [] then [with_response_time l None]
                 else map (\<lambda>r. with_response_time l (response_time r)) rs)
        = [with_response_time l
             (case find (\<lambda>r. key r = key l) right of None \<Rightarrow> None | Some r \<Rightarrow> response_time r)]"
    for l :: row
    unfolding filter_key_find [OF right]
    by (cases "find (\<lambda>r. key r = key l) right") simp_all
  have "merge_rows left right
        = concat (map (\<lambda>l. [with_response_time l
             (case find (\<lambda>r. key r = key l) right of None \<Rightarrow> None | Some r \<Rightarrow> response_time r)]) left)"
    unfolding merge_rows_def none one by simp
  also have "\<dots> = map (\<lambda>l. with_response_time l
             (case find (\<lambda>r. key r = key l) right of None \<Rightarrow> None | Some r \<Rightarrow> response_time r)) left"
    by (induction left) simp_all
  finally show ?thesis .
qed

lemma key_with_response_time: "key (with_response_time l d) = key l"
  by (simp add: key_def with_response_time_def)

lemma length_diff_from: "length (diff_from c xs) = length xs"
  by (induction xs arbitrary: c) simp_all

lemma keys_df_response_times:
  assumes "distinct (map key df)"
  shows "distinct (map key (df_response_times df))"
    and "key ` set (df_response_times df) \<subseteq> key ` set df"
proof -
  define changes where "changes = boolean_index (sender_change df) df"
  define ds where "ds = diff (map datetime changes)"
  have len: "length ds = length changes"
    by (simp add: ds_def diff_def length_diff_from)
  have "map (key \<circ> snd) (zip (sender_change df) df)
        = take (min (length (sender_change df)) (length df)) (map key df)"
    by (simp add: map_snd_zip_take take_map flip: map_map)
  then have "distinct (map (key \<circ> snd) (zip (sender_change df) df))"
    using assms by (simp add: distinct_take)
  then have "distinct (map (key \<circ> snd) (filter fst (zip (sender_change df) df)))"
    by (rule distinct_map_filter)
  then have ch: "distinct (map key changes)"
    by (simp add: changes_def boolean_index_def)
  have "map key (map2 with_response_time changes ds) = map key changes"
    using len [symmetric] by (induction changes ds rule: list_induct2) (simp_all add: key_with_response_time)
  with ch have "distinct (map key (map2 with_response_time changes ds))"
    by simp
  then show "distinct (map key (df_response_times df))"
    unfolding df_response_times_def Let_def changes_def [symmetric] ds_def [symmetric]
    by (rule distinct_map_filter)
  have "key ` set (map2 with_response_time changes ds) \<subseteq> key ` set changes"
    by (auto simp: key_with_response_time dest: set_zip_leftD)
  moreover have "set changes \<subseteq> set df"
    unfolding changes_def by (rule set_boolean_index)
  ultimately show "key ` set (df_response_times df) \<subseteq> key ` set df"
    unfolding df_response_times_def Let_def changes_def [symmetric] ds_def [symmetric]
    by auto
qed

text \<open>
  When no two records agree in timestamp, sender and body, the merge returns every
  record of the table once, with the response time that \<open>df_response_times\<close> holds
  for it and none otherwise.
\<close>

lemma main_records_distinct:
  assumes "reconstruct lines = Inr df" and "distinct (map key df)"
  shows "main_records lines
         = Inr (mset (map (\<lambda>l. with_response_time l
                  (case find (\<lambda>r. key r = key l) (df_response_times df) of
                     None \<Rightarrow> None | Some r \<Rightarrow> response_time r)) df))"
  using assms(1) keys_df_response_times [OF assms(2)]
  by (simp add: main_records_def merge_outer_def merge_rows_matched)

subsection \<open>The merge on the values of the rows\<close>

text \<open>
  The merge of line 69 joins the response times to the table by the values of
  \<open>datetime\<close>, \<open>messenger\<close>, \<open>message\<close>, \<open>date\<close> and \<open>time\<close>, not by row.
  Rows with equal values are therefore not told apart.

  Claim C1 at a failing input. Four lines: Bob at 10:00:00, then Alice \<open>hi\<close>, Bob
  \<open>y\<close> and Alice \<open>hi\<close>, all at 17:00:00. All four records are sender changes, with
  the gaps missing, 7 hours, 0 and 0. The second record is over the limit of 6 hours
  and is not in \<open>df_response_times\<close>, but the fourth record has the same values and
  a gap of 0: after the merge both records of Alice carry a response time of 0, and no
  record of Alice is without one.
\<close>

theorem stale_gap_record_gets_response_time:
  "reconstruct
     [''[01.01.23, 10:00:00] Bob: x'' @ [newline],
      ''[01.01.23, 17:00:00] Alice: hi'' @ [newline],
      ''[01.01.23, 17:00:00] Bob: y'' @ [newline],
      ''[01.01.23, 17:00:00] Alice: hi'' @ [newline]]
   = Inr
     [\<lparr>datetime = Some 1672567200, messenger = Some ''Bob'', message = ''x'',
        date = Some 19358, time = Some 36000\<rparr>,
      \<lparr>datetime = Some 1672592400, messenger = Some ''Alice'', message = ''hi'',
        date = Some 19358, time = Some 61200\<rparr>,
      \<lparr>datetime = Some 1672592400, messenger = Some ''Bob'', message = ''y'',
        date = Some 19358, time = Some 61200\<rparr>,
      \<lparr>datetime = Some 1672592400, messenger = Some ''Alice'', message = ''hi'',
        date = Some 19358, time = Some 61200\<rparr>]
   \<and> sender_change
     [\<lparr>datetime = Some 1672567200, messenger = Some ''Bob'', message = ''x'',
        date = Some 19358, time = Some 36000\<rparr>,
      \<lparr>datetime = Some 1672592400, messenger = Some ''Alice'', message = ''hi'',
        date = Some 19358, time = Some 61200\<rparr>,
      \<lparr>datetime = Some 1672592400, messenger = Some ''Bob'', message = ''y'',
        date = Some 19358, time = Some 61200\<rparr>,
      \<lparr>datetime = Some 1672592400, messenger = Some ''Alice'', message = ''hi'',
        date = Some 19358, time = Some 61200\<rparr>]
   = [True, True, True, True]
   \<and> diff [Some 1672567200, Some 1672592400, Some 1672592400, Some 1672592400]
       = [None, Some 25200, Some 0, Some 0]
   \<and> response_timelimit * 3600 < 25200
   \<and> merge_rows
     [\<lparr>datetime = Some 1672567200, messenger = Some ''Bob'', message = ''x'',
        date = Some 19358, time = Some 36000\<rparr>,
      \<lparr>datetime = Some 1672592400, messenger = Some ''Alice'', message = ''hi'',
        date = Some 19358, time = Some 61200\<rparr>,
      \<lparr>datetime = Some 1672592400, messenger = Some ''Bob'', message = ''y'',
        date = Some 19358, time = Some 61200\<rparr>,
      \<lparr>datetime = Some 1672592400, messenger = Some ''Alice'', message = ''hi'',
        date = Some 19358, time = Some 61200\<rparr>]
     (df_response_times
     [\<lparr>datetime = Some 1672567200, messenger = Some ''Bob'', message = ''x'',
        date = Some 19358, time = Some 36000\<rparr>,
      \<lparr>datetime = Some 1672592400, messenger = Some ''Alice'', message = ''hi'',
        date = Some 19358, time = Some 61200\<rparr>,
      \<lparr>datetime = Some 1672592400, messenger = Some ''Bob'', message = ''y'',
        date = Some 19358, time = Some 61200\<rparr>,
      \<lparr>datetime = Some 1672592400, messenger = Some ''Alice'', message = ''hi'',
        date = Some 19358, time = Some 61200\<rparr>])
   = [\<lparr>datetime = Some 1672567200, messenger = Some ''Bob'', message = ''x'',
        date = Some 19358, time = Some 36000, response_time = None\<rparr>,
      \<lparr>datetime = Some 1672592400, messenger = Some ''Alice'', message = ''hi'',
        date = Some 19358, time = Some 61200, response_time = Some 0\<rparr>,
      \<lparr>datetime = Some 1672592400, messenger = Some ''Bob'', message = ''y'',
        date = Some 19358, time = Some 61200, response_time = Some 0\<rparr>,
      \<lparr>datetime = Some 1672592400, messenger = Some ''Alice'', message = ''hi'',
        date = Some 19358, time = Some 61200, response_time = Some 0\<rparr>]
   \<and> main_records
     [''[01.01.23, 10:00:00] Bob: x'' @ [newline],
      ''[01.01.23, 17:00:00] Alice: hi'' @ [newline],
      ''[01.01.23, 17:00:00] Bob: y'' @ [newline],
      ''[01.01.23, 17:00:00] Alice: hi'' @ [newline]]
   = Inr (mset
     [\<lparr>datetime = Some 1672567200, messenger = Some ''Bob'', message = ''x'',
        date = Some 19358, time = Some 36000, response_time = None\<rparr>,
      \<lparr>datetime = Some 1672592400, messenger = Some ''Alice'', message = ''hi'',
        date = Some 19358, time = Some 61200, response_time = Some 0\<rparr>,
      \<lparr>datetime = Some 1672592400, messenger = Some ''Bob'', message = ''y'',
        date = Some 19358, time = Some 61200, response_time = Some 0\<rparr>,
      \<lparr>datetime = Some 1672592400, messenger = Some ''Alice'', message = ''hi'',
        date = Some 19358, time = Some 61200, response_time = Some 0\<rparr>])"
proof -
  let ?lines = "[''[01.01.23, 10:00:00] Bob: x'' @ [newline],
       ''[01.01.23, 17:00:00] Alice: hi'' @ [newline],
       ''[01.01.23, 17:00:00] Bob: y'' @ [newline],
       ''[01.01.23, 17:00:00] Alice: hi'' @ [newline]]"
  let ?df = "[\<lparr>datetime = Some 1672567200, messenger = Some ''Bob'', message = ''x'',
         date = Some 19358, time = Some 36000\<rparr>,
       \<lparr>datetime = Some 1672592400, messenger = Some ''Alice'', message = ''hi'',
         date = Some 19358, time = Some 61200\<rparr>,
       \<lparr>datetime = Some 1672592400, messenger = Some ''Bob'', message = ''y'',
         date = Some 19358, time = Some 61200\<rparr>,
       \<lparr>datetime = Some 1672592400, messenger = Some ''Alice'', message = ''hi'',
         date = Some 19358, time = Some 61200\<rparr>]"
  let ?out = "[\<lparr>datetime = Some 1672567200, messenger = Some ''Bob'', message = ''x'',
         date = Some 19358, time = Some 36000, response_time = None\<rparr>,
       \<lparr>datetime = Some 1672592400, messenger = Some ''Alice'', message = ''hi'',
         date = Some 19358, time = Some 61200, response_time = Some 0\<rparr>,
       \<lparr>datetime = Some 1672592400, messenger = Some ''Bob'', message = ''y'',
         date = Some 19358, time = Some 61200, response_time = Some 0\<rparr>,
       \<lparr>datetime = Some 1672592400, messenger = Some ''Alice'', message = ''hi'',
         date = Some 19358, time = Some 61200, response_time = Some 0\<rparr>]"
  have rec: "reconstruct ?lines = Inr ?df"
    by code_simp
  have rows: "merge_rows ?df (df_response_times ?df) = ?out"
    by code_simp
  have run: "main_records ?lines = Inr (mset ?out)"
    using rec rows by (rule main_records_rows)
  have mask: "sender_change ?df = [True, True, True, True]"
    by code_simp
  have gaps: "diff [Some 1672567200, Some 1672592400, Some 1672592400, Some 1672592400]
       = [None, Some 25200, Some 0, Some 0]"
    by code_simp
  have limit: "response_timelimit * 3600 < 25200"
    by code_simp
  from rec mask gaps limit rows run show ?thesis
    by (intro conjI)
qed

text \<open>
  Claim C2 at a failing input. Alice writes at 10:00:00 and Bob writes \<open>ok\<close> twice at
  10:05:00. The third record has the sender of the second and is not a sender change,
  yet after the merge both records of Bob carry the response time of the second,
  5 minutes.
\<close>

theorem repeated_record_gets_response_time:
  "reconstruct
     [''[01.01.23, 10:00:00] Alice: Hi'' @ [newline],
      ''[01.01.23, 10:05:00] Bob: ok'' @ [newline],
      ''[01.01.23, 10:05:00] Bob: ok'' @ [newline]]
   = Inr
     [\<lparr>datetime = Some 1672567200, messenger = Some ''Alice'', message = ''Hi'',
        date = Some 19358, time = Some 36000\<rparr>,
      \<lparr>datetime = Some 1672567500, messenger = Some ''Bob'', message = ''ok'',
        date = Some 19358, time = Some 36300\<rparr>,
      \<lparr>datetime = Some 1672567500, messenger = Some ''Bob'', message = ''ok'',
        date = Some 19358, time = Some 36300\<rparr>]
   \<and> sender_change
     [\<lparr>datetime = Some 1672567200, messenger = Some ''Alice'', message = ''Hi'',
        date = Some 19358, time = Some 36000\<rparr>,
      \<lparr>datetime = Some 1672567500, messenger = Some ''Bob'', message = ''ok'',
        date = Some 19358, time = Some 36300\<rparr>,
      \<lparr>datetime = Some 1672567500, messenger = Some ''Bob'', message = ''ok'',
        date = Some 19358, time = Some 36300\<rparr>]
   = [True, True, False]
   \<and> merge_rows
     [\<lparr>datetime = Some 1672567200, messenger = Some ''Alice'', message = ''Hi'',
        date = Some 19358, time = Some 36000\<rparr>,
      \<lparr>datetime = Some 1672567500, messenger = Some ''Bob'', message = ''ok'',
        date = Some 19358, time = Some 36300\<rparr>,
      \<lparr>datetime = Some 1672567500, messenger = Some ''Bob'', message = ''ok'',
        date = Some 19358, time = Some 36300\<rparr>]
     (df_response_times
     [\<lparr>datetime = Some 1672567200, messenger = Some ''Alice'', message = ''Hi'',
        date = Some 19358, time = Some 36000\<rparr>,
      \<lparr>datetime = Some 1672567500, messenger = Some ''Bob'', message = ''ok'',
        date = Some 19358, time = Some 36300\<rparr>,
      \<lparr>datetime = Some 1672567500, messenger = Some ''Bob'', message = ''ok'',
        date = Some 19358, time = Some 36300\<rparr>])
   = [\<lparr>datetime = Some 1672567200, messenger = Some ''Alice'', message = ''Hi'',
        date = Some 19358, time = Some 36000, response_time = None\<rparr>,
      \<lparr>datetime = Some 1672567500, messenger = Some ''Bob'', message = ''ok'',
        date = Some 19358, time = Some 36300, response_time = Some 300\<rparr>,
      \<lparr>datetime = Some 1672567500, messenger = Some ''Bob'', message = ''ok'',
        date = Some 19358, time = Some 36300, response_time = Some 300\<rparr>]
   \<and> main_records
     [''[01.01.23, 10:00:00] Alice: Hi'' @ [newline],
      ''[01.01.23, 10:05:00] Bob: ok'' @ [newline],
      ''[01.01.23, 10:05:00] Bob: ok'' @ [newline]]
   = Inr (mset
     [\<lparr>datetime = Some 1672567200, messenger = Some ''Alice'', message = ''Hi'',
        date = Some 19358, time = Some 36000, response_time = None\<rparr>,
      \<lparr>datetime = Some 1672567500, messenger = Some ''Bob'', message = ''ok'',
        date = Some 19358, time = Some 36300, response_time = Some 300\<rparr>,
      \<lparr>datetime = Some 1672567500, messenger = Some ''Bob'', message = ''ok'',
        date = Some 19358, time = Some 36300, response_time = Some 300\<rparr>])"
proof -
  let ?lines = "[''[01.01.23, 10:00:00] Alice: Hi'' @ [newline],
       ''[01.01.23, 10:05:00] Bob: ok'' @ [newline],
       ''[01.01.23, 10:05:00] Bob: ok'' @ [newline]]"
  let ?df = "[\<lparr>datetime = Some 1672567200, messenger = Some ''Alice'', message = ''Hi'',
         date = Some 19358, time = Some 36000\<rparr>,
       \<lparr>datetime = Some 1672567500, messenger = Some ''Bob'', message = ''ok'',
         date = Some 19358, time = Some 36300\<rparr>,
       \<lparr>datetime = Some 1672567500, messenger = Some ''Bob'', message = ''ok'',
         date = Some 19358, time = Some 36300\<rparr>]"
  let ?out = "[\<lparr>datetime = Some 1672567200, messenger = Some ''Alice'', message = ''Hi'',
         date = Some 19358, time = Some 36000, response_time = None\<rparr>,
       \<lparr>datetime = Some 1672567500, messenger = Some ''Bob'', message = ''ok'',
         date = Some 19358, time = Some 36300, response_time = Some 300\<rparr>,
       \<lparr>datetime = Some 1672567500, messenger = Some ''Bob'', message = ''ok'',
         date = Some 19358, time = Some 36300, response_time = Some 300\<rparr>]"
  have rec: "reconstruct ?lines = Inr ?df"
    by code_simp
  have rows: "merge_rows ?df (df_response_times ?df) = ?out"
    by code_simp
  have run: "main_records ?lines = Inr (mset ?out)"
    using rec rows by (rule main_records_rows)
  have mask: "sender_change ?df = [True, True, False]"
    by code_simp
  from rec mask rows run show ?thesis
    by (intro conjI)
qed

text \<open>
  Claim C8 at a failing input. Zoe writes at 10:00:00, then Alice \<open>hi\<close>, Bob \<open>x\<close> and
  Alice \<open>hi\<close> at 11:00:00. The reconstruction gives four records. The two records of
  Alice are both in \<open>df_response_times\<close>, with 1 hour and with 0, under the same
  key: the merge pairs each of the two rows of the table with both, so the table after
  the merge has six records, and each record of Alice appears once with its own
  response time and once with that of the other.
\<close>

theorem merge_multiplies_equal_records:
  "reconstruct
     [''[01.01.23, 10:00:00] Zoe: a'' @ [newline],
      ''[01.01.23, 11:00:00] Alice: hi'' @ [newline],
      ''[01.01.23, 11:00:00] Bob: x'' @ [newline],
      ''[01.01.23, 11:00:00] Alice: hi'' @ [newline]]
   = Inr
     [\<lparr>datetime = Some 1672567200, messenger = Some ''Zoe'', message = ''a'',
        date = Some 19358, time = Some 36000\<rparr>,
      \<lparr>datetime = Some 1672570800, messenger = Some ''Alice'', message = ''hi'',
        date = Some 19358, time = Some 39600\<rparr>,
      \<lparr>datetime = Some 1672570800, messenger = Some ''Bob'', message = ''x'',
        date = Some 19358, time = Some 39600\<rparr>,
      \<lparr>datetime = Some 1672570800, messenger = Some ''Alice'', message = ''hi'',
        date = Some 19358, time = Some 39600\<rparr>]
   \<and> merge_rows
     [\<lparr>datetime = Some 1672567200, messenger = Some ''Zoe'', message = ''a'',
        date = Some 19358, time = Some 36000\<rparr>,
      \<lparr>datetime = Some 1672570800, messenger = Some ''Alice'', message = ''hi'',
        date = Some 19358, time = Some 39600\<rparr>,
      \<lparr>datetime = Some 1672570800, messenger = Some ''Bob'', message = ''x'',
        date = Some 19358, time = Some 39600\<rparr>,
      \<lparr>datetime = Some 1672570800, messenger = Some ''Alice'', message = ''hi'',
        date = Some 19358, time = Some 39600\<rparr>]
     (df_response_times
     [\<lparr>datetime = Some 1672567200, messenger = Some ''Zoe'', message = ''a'',
        date = Some 19358, time = Some 36000\<rparr>,
      \<lparr>datetime = Some 1672570800, messenger = Some ''Alice'', message = ''hi'',
        date = Some 19358, time = Some 39600\<rparr>,
      \<lparr>datetime = Some 1672570800, messenger = Some ''Bob'', message = ''x'',
        date = Some 19358, time = Some 39600\<rparr>,
      \<lparr>datetime = Some 1672570800, messenger = Some ''Alice'', message = ''hi'',
        date = Some 19358, time = Some 39600\<rparr>])
   = [\<lparr>datetime = Some 1672567200, messenger = Some ''Zoe'', message = ''a'',
        date = Some 19358, time = Some 36000, response_time = None\<rparr>,
      \<lparr>datetime = Some 1672570800, messenger = Some ''Alice'', message = ''hi'',
        date = Some 19358, time = Some 39600, response_time = Some 3600\<rparr>,
      \<lparr>datetime = Some 1672570800, messenger = Some ''Alice'', message = ''hi'',
        date = Some 19358, time = Some 39600, response_time = Some 0\<rparr>,
      \<lparr>datetime = Some 1672570800, messenger = Some ''Bob'', message = ''x'',
        date = Some 19358, time = Some 39600, response_time = Some 0\<rparr>,
      \<lparr>datetime = Some 1672570800, messenger = Some ''Alice'', message = ''hi'',
        date = Some 19358, time = Some 39600, response_time = Some 3600\<rparr>,
      \<lparr>datetime = Some 1672570800, messenger = Some ''Alice'', message = ''hi'',
        date = Some 19358, time = Some 39600, response_time = Some 0\<rparr>]
   \<and> main_records
     [''[01.01.23, 10:00:00] Zoe: a'' @ [newline],
      ''[01.01.23, 11:00:00] Alice: hi'' @ [newline],
      ''[01.01.23, 11:00:00] Bob: x'' @ [newline],
      ''[01.01.23, 11:00:00] Alice: hi'' @ [newline]]
   = Inr (mset
     [\<lparr>datetime = Some 1672567200, messenger = Some ''Zoe'', message = ''a'',
        date = Some 19358, time = Some 36000, response_time = None\<rparr>,
      \<lparr>datetime = Some 1672570800, messenger = Some ''Alice'', message = ''hi'',
        date = Some 19358, time = Some 39600, response_time = Some 3600\<rparr>,
      \<lparr>datetime = Some 1672570800, messenger = Some ''Alice'', message = ''hi'',
        date = Some 19358, time = Some 39600, response_time = Some 0\<rparr>,
      \<lparr>datetime = Some 1672570800, messenger = Some ''Bob'', message = ''x'',
        date = Some 19358, time = Some 39600, response_time = Some 0\<rparr>,
      \<lparr>datetime = Some 1672570800, messenger = Some ''Alice'', message = ''hi'',
        date = Some 19358, time = Some 39600, response_time = Some 3600\<rparr>,
      \<lparr>datetime = Some 1672570800, messenger = Some ''Alice'', message = ''hi'',
        date = Some 19358, time = Some 39600, response_time = Some 0\<rparr>])
   \<and> size (mset
     [\<lparr>datetime = Some 1672567200, messenger = Some ''Zoe'', message = ''a'',
        date = Some 19358, time = Some 36000, response_time = None\<rparr>,
      \<lparr>datetime = Some 1672570800, messenger = Some ''Alice'', message = ''hi'',
        date = Some 19358, time = Some 39600, response_time = Some 3600\<rparr>,
      \<lparr>datetime = Some 1672570800, messenger = Some ''Alice'', message = ''hi'',
        date = Some 19358, time = Some 39600, response_time = Some 0\<rparr>,
      \<lparr>datetime = Some 1672570800, messenger = Some ''Bob'', message = ''x'',
        date = Some 19358, time = Some 39600, response_time = Some 0\<rparr>,
      \<lparr>datetime = Some 1672570800, messenger = Some ''Alice'', message = ''hi'',
        date = Some 19358, time = Some 39600, response_time = Some 3600\<rparr>,
      \<lparr>datetime = Some 1672570800, messenger = Some ''Alice'', message = ''hi'',
        date = Some 19358, time = Some 39600, response_time = Some 0\<rparr>]) = 6"
proof -
  let ?lines = "[''[01.01.23, 10:00:00] Zoe: a'' @ [newline],
       ''[01.01.23, 11:00:00] Alice: hi'' @ [newline],
       ''[01.01.23, 11:00:00] Bob: x'' @ [newline],
       ''[01.01.23, 11:00:00] Alice: hi'' @ [newline]]"
  let ?df = "[\<lparr>datetime = Some 1672567200, messenger = Some ''Zoe'', message = ''a'',
         date = Some 19358, time = Some 36000\<rparr>,
       \<lparr>datetime = Some 1672570800, messenger = Some ''Alice'', message = ''hi'',
         date = Some 19358, time = Some 39600\<rparr>,
       \<lparr>datetime = Some 1672570800, messenger = Some ''Bob'', message = ''x'',
         date = Some 19358, time = Some 39600\<rparr>,
       \<lparr>datetime = Some 1672570800, messenger = Some ''Alice'', message = ''hi'',
         date = Some 19358, time = Some 39600\<rparr>]"
  let ?out = "[\<lparr>datetime = Some 1672567200, messenger = Some ''Zoe'', message = ''a'',
         date = Some 19358, time = Some 36000, response_time = None\<rparr>,
       \<lparr>datetime = Some 1672570800, messenger = Some ''Alice'', message = ''hi'',
         date = Some 19358, time = Some 39600, response_time = Some 3600\<rparr>,
       \<lparr>datetime = Some 1672570800, messenger = Some ''Alice'', message = ''hi'',
         date = Some 19358, time = Some 39600, response_time = Some 0\<rparr>,
       \<lparr>datetime = Some 1672570800, messenger = Some ''Bob'', message = ''x'',
         date = Some 19358, time = Some 39600, response_time = Some 0\<rparr>,
       \<lparr>datetime = Some 1672570800, messenger = Some ''Alice'', message = ''hi'',
         date = Some 19358, time = Some 39600, response_time = Some 3600\<rparr>,
       \<lparr>datetime = Some 1672570800, messenger = Some ''Alice'', message = ''hi'',
         date = Some 19358, time = Some 39600, response_time = Some 0\<rparr>]"
  have rec: "reconstruct ?lines = Inr ?df"
    by code_simp
  have rows: "merge_rows ?df (df_response_times ?df) = ?out"
    by code_simp
  have run: "main_records ?lines = Inr (mset ?out)"
    using rec rows by (rule main_records_rows)
  have six: "size (mset ?out) = 6"
    by simp
  from rec rows run six show ?thesis
    by (intro conjI)
qed

subsection \<open>Two runs on the same file\<close>

lemma map_of_columns:
  "map_of (map (\<lambda>m. (m, v m)) ms) = (\<lambda>k. if k \<in> set ms then Some (v k) else None)"
  by (induction ms) auto

lemma df_averages_orders:
  assumes o1: "iteration_order ms1 df" and o2: "iteration_order ms2 df"
  shows "(df_averages f g h ms1 df = Inl ValueError \<and> df_averages f g h ms2 df = Inl ValueError)
       \<or> (\<exists>t1 t2. df_averages f g h ms1 df = Inr t1 \<and> df_averages f g h ms2 df = Inr t2
             \<and> mset t1 = mset t2 \<and> map_of t1 = map_of t2
             \<and> map fst t1 = ms1 \<and> map fst t2 = ms2)"
proof -
  from o1 o2 have sets: "set ms1 = set ms2" and d: "distinct ms1" "distinct ms2"
    by (simp_all add: iteration_order_def)
  show ?thesis
  proof (cases "\<exists>m\<in>set ms1. rows_of df m = {#}")
    case True
    then have "df_averages f g h ms1 df = Inl ValueError"
      by (simp add: df_averages_def)
    moreover from True sets have "df_averages f g h ms2 df = Inl ValueError"
      by (simp add: df_averages_def)
    ultimately show ?thesis by (intro disjI1 conjI)
  next
    case False
    define col where "col = (\<lambda>m. (m, averages f g h df m))"
    have t1: "df_averages f g h ms1 df = Inr (map col ms1)"
      using False by (simp add: df_averages_def col_def)
    have t2: "df_averages f g h ms2 df = Inr (map col ms2)"
      using False sets by (simp add: df_averages_def col_def)
    have "mset ms1 = mset ms2"
      using sets d by (simp add: set_eq_iff_mset_eq_distinct)
    then have perm: "mset (map col ms1) = mset (map col ms2)"
      by (metis mset_map)
    have maps: "map_of (map col ms1) = map_of (map col ms2)"
      unfolding col_def map_of_columns sets ..
    have heads: "map fst (map col ms1) = ms1" "map fst (map col ms2) = ms2"
      by (simp_all add: col_def comp_def)
    show ?thesis
      by (rule disjI2)
        (intro exI [of _ "map col ms1"] exI [of _ "map col ms2"] conjI t1 t2 perm maps heads)
  qed
qed

text \<open>
  Claim C7, as amended. Two runs on the same lines, with any two iteration orders of
  the set of senders and whatever the library's averages: when the table \<open>df\<close> cannot
  be built, both raise the same exception; otherwise both raise \<open>ValueError\<close> in
  the averages, or both return the same table \<open>df\<close> and summary tables with the same
  senders and the same values for each sender, the columns of each table standing in
  the iteration order of its run. The two summary tables are equal up to the order of
  their columns.
\<close>

theorem runs_agree_up_to_column_order:
  "(main_records lines = Inl e \<longrightarrow>
      main_outputs f g h order1 lines = Inl e \<and> main_outputs f g h order2 lines = Inl e)
   \<and> (main_records lines = Inr df \<and> iteration_order (order1 df) df \<and> iteration_order (order2 df) df
        \<longrightarrow>
      (main_outputs f g h order1 lines = Inl ValueError
         \<and> main_outputs f g h order2 lines = Inl ValueError)
      \<or> (\<exists>t1 t2. main_outputs f g h order1 lines = Inr (df, t1)
            \<and> main_outputs f g h order2 lines = Inr (df, t2)
            \<and> mset t1 = mset t2 \<and> map_of t1 = map_of t2
            \<and> map fst t1 = order1 df \<and> map fst t2 = order2 df))"
proof (intro conjI impI)
  assume "main_records lines = Inl e"
  then show "main_outputs f g h order1 lines = Inl e" "main_outputs f g h order2 lines = Inl e"
    by (simp_all add: main_outputs_def)
next
  assume a: "main_records lines = Inr df \<and> iteration_order (order1 df) df
    \<and> iteration_order (order2 df) df"
  then have run: "main_records lines = Inr df" and o1: "iteration_order (order1 df) df"
    and o2: "iteration_order (order2 df) df"
    by simp_all
  from df_averages_orders [OF o1 o2, of f g h]
  show "(main_outputs f g h order1 lines = Inl ValueError
         \<and> main_outputs f g h order2 lines = Inl ValueError)
      \<or> (\<exists>t1 t2. main_outputs f g h order1 lines = Inr (df, t1)
            \<and> main_outputs f g h order2 lines = Inr (df, t2)
            \<and> mset t1 = mset t2 \<and> map_of t1 = map_of t2
            \<and> map fst t1 = order1 df \<and> map fst t2 = order2 df)"
  proof (elim disjE conjE exE)
    assume "df_averages f g h (order1 df) df = Inl ValueError"
      "df_averages f g h (order2 df) df = Inl ValueError"
    then show ?thesis
      by (simp add: main_outputs_def run)
  next
    fix t1 t2
    assume t: "df_averages f g h (order1 df) df = Inr t1" "df_averages f g h (order2 df) df = Inr t2"
      and rest: "mset t1 = mset t2" "map_of t1 = map_of t2" "map fst t1 = order1 df"
        "map fst t2 = order2 df"
    have r1: "main_outputs f g h order1 lines = Inr (df, t1)"
      and r2: "main_outputs f g h order2 lines = Inr (df, t2)"
      using t by (simp_all add: main_outputs_def run)
    show ?thesis
      by (rule disjI2) (intro exI [of _ t1] exI [of _ t2] conjI r1 r2 rest)
  qed
qed

theorem runs_agree_up_to_column_order_witness:
  "main_records [] = Inl KeyError
   \<and> main_outputs (\<lambda>rts. ()) (\<lambda>lens. ()) (\<lambda>n days. ()) (\<lambda>df. [Some ''Alice'', Some ''Bob'']) []
       = Inl KeyError
   \<and> main_records [''[01.01.23, 10:00:00] Alice: Hi'' @ [newline],
                 ''[01.01.23, 10:05:00] Bob: Hello'' @ [newline]]
     = Inr (mset [\<lparr>datetime = Some 1672567200, messenger = Some ''Alice'', message = ''Hi'',
              date = Some 19358, time = Some 36000, response_time = None\<rparr>,
            \<lparr>datetime = Some 1672567500, messenger = Some ''Bob'', message = ''Hello'',
              date = Some 19358, time = Some 36300, response_time = Some 300\<rparr>])
   \<and> (\<exists>t1 t2.
        main_outputs (\<lambda>rts. ()) (\<lambda>lens. ()) (\<lambda>n days. ()) (\<lambda>df. [Some ''Alice'', Some ''Bob''])
          [''[01.01.23, 10:00:00] Alice: Hi'' @ [newline],
           ''[01.01.23, 10:05:00] Bob: Hello'' @ [newline]]
        = Inr (mset [\<lparr>datetime = Some 1672567200, messenger = Some ''Alice'', message = ''Hi'',
              date = Some 19358, time = Some 36000, response_time = None\<rparr>,
            \<lparr>datetime = Some 1672567500, messenger = Some ''Bob'', message = ''Hello'',
              date = Some 19358, time = Some 36300, response_time = Some 300\<rparr>], t1)
        \<and> main_outputs (\<lambda>rts. ()) (\<lambda>lens. ()) (\<lambda>n days. ()) (\<lambda>df. [Some ''Bob'', Some ''Alice''])
          [''[01.01.23, 10:00:00] Alice: Hi'' @ [newline],
           ''[01.01.23, 10:05:00] Bob: Hello'' @ [newline]]
        = Inr (mset [\<lparr>datetime = Some 1672567200, messenger = Some ''Alice'', message = ''Hi'',
              date = Some 19358, time = Some 36000, response_time = None\<rparr>,
            \<lparr>datetime = Some 1672567500, messenger = Some ''Bob'', message = ''Hello'',
              date = Some 19358, time = Some 36300, response_time = Some 300\<rparr>], t2)
        \<and> mset t1 = mset t2 \<and> map_of t1 = map_of t2
        \<and> map fst t1 = [Some ''Alice'', Some ''Bob'']
        \<and> map fst t2 = [Some ''Bob'', Some ''Alice''])"
proof -
  let ?lines = "[''[01.01.23, 10:00:00] Alice: Hi'' @ [newline],
                 ''[01.01.23, 10:05:00] Bob: Hello'' @ [newline]]"
  let ?df = "[\<lparr>datetime = Some 1672567200, messenger = Some ''Alice'', message = ''Hi'',
              date = Some 19358, time = Some 36000\<rparr>,
            \<lparr>datetime = Some 1672567500, messenger = Some ''Bob'', message = ''Hello'',
              date = Some 19358, time = Some 36300\<rparr>]"
  let ?out = "[\<lparr>datetime = Some 1672567200, messenger = Some ''Alice'', message = ''Hi'',
              date = Some 19358, time = Some 36000, response_time = None\<rparr>,
            \<lparr>datetime = Some 1672567500, messenger = Some ''Bob'', message = ''Hello'',
              date = Some 19358, time = Some 36300, response_time = Some 300\<rparr>]"
  let ?f = "\<lambda>rts::int option multiset. ()"
  let ?g = "\<lambda>lens::nat multiset. ()"
  let ?h = "\<lambda>(n::nat) (days::nat). ()"
  let ?o1 = "\<lambda>df::message_record multiset. [Some ''Alice'', Some ''Bob'']"
  let ?o2 = "\<lambda>df::message_record multiset. [Some ''Bob'', Some ''Alice'']"
  have none: "main_records [] = Inl KeyError"
    by code_simp
  from runs_agree_up_to_column_order [of "[]" KeyError ?f ?g ?h ?o1 ?o2] none
  have err: "main_outputs ?f ?g ?h ?o1 [] = Inl KeyError"
    by blast
  have rec: "reconstruct ?lines = Inr ?df"
    by code_simp
  have rows: "merge_rows ?df (df_response_times ?df) = ?out"
    by code_simp
  have run: "main_records ?lines = Inr (mset ?out)"
    using rec rows by (rule main_records_rows)
  have o1: "iteration_order (?o1 (mset ?out)) (mset ?out)"
    by (auto simp: iteration_order_def)
  have o2: "iteration_order (?o2 (mset ?out)) (mset ?out)"
    by (auto simp: iteration_order_def)
  have a1: "df_averages ?f ?g ?h [Some ''Alice'', Some ''Bob''] (mset ?out)
      = Inr [(Some ''Alice'', (), (), ()), (Some ''Bob'', (), (), ())]"
    by (simp add: df_averages_def rows_of_def eq_obj_def averages_def)
  have ok: "main_outputs ?f ?g ?h ?o1 ?lines \<noteq> Inl ValueError"
    unfolding main_outputs_def run sum.case a1 by simp
  from runs_agree_up_to_column_order [of ?lines _ ?f ?g ?h ?o1 ?o2 "mset ?out"] run o1 o2 ok
  have "\<exists>t1 t2. main_outputs ?f ?g ?h ?o1 ?lines = Inr (mset ?out, t1)
            \<and> main_outputs ?f ?g ?h ?o2 ?lines = Inr (mset ?out, t2)
            \<and> mset t1 = mset t2 \<and> map_of t1 = map_of t2
            \<and> map fst t1 = ?o1 (mset ?out) \<and> map fst t2 = ?o2 (mset ?out)"
    by blast
  with none err run show ?thesis
    by (intro conjI)
qed

text \<open>
  Claim C7 as stated fails for a file with two senders: both orders of the two senders
  are iteration orders of the set, and the runs with them return different summary
  tables, whatever the averages.
\<close>

theorem column_order_differs_between_runs:
  "main_records [''[01.01.23, 10:00:00] Alice: Hi'' @ [newline],
                 ''[01.01.23, 10:05:00] Bob: Hello'' @ [newline]]
     = Inr (mset [\<lparr>datetime = Some 1672567200, messenger = Some ''Alice'', message = ''Hi'',
              date = Some 19358, time = Some 36000, response_time = None\<rparr>,
            \<lparr>datetime = Some 1672567500, messenger = Some ''Bob'', message = ''Hello'',
              date = Some 19358, time = Some 36300, response_time = Some 300\<rparr>])
   \<and> iteration_order [Some ''Alice'', Some ''Bob'']
        (mset [\<lparr>datetime = Some 1672567200, messenger = Some ''Alice'', message = ''Hi'',
              date = Some 19358, time = Some 36000, response_time = None\<rparr>,
            \<lparr>datetime = Some 1672567500, messenger = Some ''Bob'', message = ''Hello'',
              date = Some 19358, time = Some 36300, response_time = Some 300\<rparr>])
   \<and> iteration_order [Some ''Bob'', Some ''Alice'']
        (mset [\<lparr>datetime = Some 1672567200, messenger = Some ''Alice'', message = ''Hi'',
              date = Some 19358, time = Some 36000, response_time = None\<rparr>,
            \<lparr>datetime = Some 1672567500, messenger = Some ''Bob'', message = ''Hello'',
              date = Some 19358, time = Some 36300, response_time = Some 300\<rparr>])
   \<and> main_outputs (\<lambda>rts. ()) (\<lambda>lens. ()) (\<lambda>n days. ()) (\<lambda>df. [Some ''Alice'', Some ''Bob''])
        [''[01.01.23, 10:00:00] Alice: Hi'' @ [newline],
         ''[01.01.23, 10:05:00] Bob: Hello'' @ [newline]]
     \<noteq> main_outputs (\<lambda>rts. ()) (\<lambda>lens. ()) (\<lambda>n days. ()) (\<lambda>df. [Some ''Bob'', Some ''Alice''])
        [''[01.01.23, 10:00:00] Alice: Hi'' @ [newline],
         ''[01.01.23, 10:05:00] Bob: Hello'' @ [newline]]"
proof -
  let ?lines = "[''[01.01.23, 10:00:00] Alice: Hi'' @ [newline],
                 ''[01.01.23, 10:05:00] Bob: Hello'' @ [newline]]"
  let ?df = "[\<lparr>datetime = Some 1672567200, messenger = Some ''Alice'', message = ''Hi'',
              date = Some 19358, time = Some 36000\<rparr>,
            \<lparr>datetime = Some 1672567500, messenger = Some ''Bob'', message = ''Hello'',
              date = Some 19358, time = Some 36300\<rparr>]"
  let ?out = "[\<lparr>datetime = Some 1672567200, messenger = Some ''Alice'', message = ''Hi'',
              date = Some 19358, time = Some 36000, response_time = None\<rparr>,
            \<lparr>datetime = Some 1672567500, messenger = Some ''Bob'', message = ''Hello'',
              date = Some 19358, time = Some 36300, response_time = Some 300\<rparr>]"
  have rec: "reconstruct ?lines = Inr ?df"
    by code_simp
  have rows: "merge_rows ?df (df_response_times ?df) = ?out"
    by code_simp
  have run: "main_records ?lines = Inr (mset ?out)"
    using rec rows by (rule main_records_rows)
  have o1: "iteration_order [Some ''Alice'', Some ''Bob''] (mset ?out)"
    by (auto simp: iteration_order_def)
  have o2: "iteration_order [Some ''Bob'', Some ''Alice''] (mset ?out)"
    by (auto simp: iteration_order_def)
  have a1: "df_averages (\<lambda>rts. ()) (\<lambda>lens. ()) (\<lambda>n days. ()) [Some ''Alice'', Some ''Bob''] (mset ?out)
      = Inr [(Some ''Alice'', (), (), ()), (Some ''Bob'', (), (), ())]"
    by (simp add: df_averages_def rows_of_def eq_obj_def averages_def)
  have a2: "df_averages (\<lambda>rts. ()) (\<lambda>lens. ()) (\<lambda>n days. ()) [Some ''Bob'', Some ''Alice''] (mset ?out)
      = Inr [(Some ''Bob'', (), (), ()), (Some ''Alice'', (), (), ())]"
    by (simp add: df_averages_def rows_of_def eq_obj_def averages_def)
  have t1: "main_outputs (\<lambda>rts. ()) (\<lambda>lens. ()) (\<lambda>n days. ()) (\<lambda>df. [Some ''Alice'', Some ''Bob'']) ?lines
      = Inr (mset ?out, [(Some ''Alice'', (), (), ()), (Some ''Bob'', (), (), ())])"
    unfolding main_outputs_def run sum.case a1 ..
  have t2: "main_outputs (\<lambda>rts. ()) (\<lambda>lens. ()) (\<lambda>n days. ()) (\<lambda>df. [Some ''Bob'', Some ''Alice'']) ?lines
      = Inr (mset ?out, [(Some ''Bob'', (), (), ()), (Some ''Alice'', (), (), ())])"
    unfolding main_outputs_def run sum.case a2 ..
  have "main_outputs (\<lambda>rts. ()) (\<lambda>lens. ()) (\<lambda>n days. ()) (\<lambda>df. [Some ''Alice'', Some ''Bob'']) ?lines
     \<noteq> main_outputs (\<lambda>rts. ()) (\<lambda>lens. ()) (\<lambda>n days. ()) (\<lambda>df. [Some ''Bob'', Some ''Alice'']) ?lines"
    unfolding t1 t2 by simp
  with run o1 o2 show ?thesis
    by (intro conjI)
qed


end
